theory Spec2Isabelle
  imports Complex_Main "HOL-Library.Sublist"
begin

section \<open>Strings\<close>

text \<open>
  JavaScript strings are modelled as \<^typ>\<open>string\<close> restricted to ASCII text: on ASCII,
  \<^verbatim>\<open>toLowerCase\<close>, \<^verbatim>\<open>trim\<close>, \<^verbatim>\<open>slice\<close>, \<^verbatim>\<open>includes\<close> and \<^verbatim>\<open>split\<close> are the functions below
  (\<open>includesStr\<close> for \<^verbatim>\<open>includes\<close>). A property that may be \<^verbatim>\<open>undefined\<close> or \<^verbatim>\<open>null\<close> (a key
  absent from parsed JSON, or a JSON \<^verbatim>\<open>null\<close>) is a \<open>field\<close>.
\<close>

datatype field = Undefined | Null | Str string

definition upperChars :: string where
  "upperChars = ''ABCDEFGHIJKLMNOPQRSTUVWXYZ''"

definition lowerChars :: string where
  "lowerChars = ''abcdefghijklmnopqrstuvwxyz''"

definition toLowerChar :: "char \<Rightarrow> char" where
  "toLowerChar c = (case map_of (zip upperChars lowerChars) c of Some d \<Rightarrow> d | None \<Rightarrow> c)"

definition toLowerCase :: "string \<Rightarrow> string" where
  "toLowerCase s = map toLowerChar s"

definition isSpace :: "char \<Rightarrow> bool" where
  "isSpace c = (c \<in> set [CHR '' '', CHR 0x09, CHR 0x0A, CHR 0x0B, CHR 0x0C, CHR 0x0D])"

definition trim :: "string \<Rightarrow> string" where
  "trim s = rev (dropWhile isSpace (rev (dropWhile isSpace s)))"

text \<open>\<^verbatim>\<open>s.slice(0, n)\<close> and \<^verbatim>\<open>xs.slice(0, n)\<close>: a negative end counts from the end.\<close>

definition slice0 :: "'a list \<Rightarrow> int \<Rightarrow> 'a list" where
  "slice0 xs n = (if n < 0 then take (length xs - nat (- n)) xs else take (nat n) xs)"

definition startsWith :: "string \<Rightarrow> string \<Rightarrow> bool" where
  "startsWith s t = (take (length t) s = t)"

fun includesStr :: "string \<Rightarrow> string \<Rightarrow> bool" where
  "includesStr [] t = (t = [])"
| "includesStr (c # cs) t = (startsWith (c # cs) t \<or> includesStr cs t)"

text \<open>\<^verbatim>\<open>s.split(' ')\<close>: every single space separates; the empty string gives one empty piece.\<close>

fun splitSpace :: "string \<Rightarrow> string list" where
  "splitSpace [] = [[]]"
| "splitSpace (c # cs) =
     (if c = CHR '' '' then [] # splitSpace cs
      else (case splitSpace cs of [] \<Rightarrow> [[c]] | w # ws \<Rightarrow> (c # w) # ws))"

text \<open>Template-literal interpolation \<^verbatim>\<open>`${x}`\<close> of a field.\<close>

fun interpolate :: "field \<Rightarrow> string" where
  "interpolate Undefined = ''undefined''"
| "interpolate Null = ''null''"
| "interpolate (Str s) = s"

text \<open>Truthiness of a string-valued field: absent, null and the empty string are falsy.\<close>

fun truthy :: "field \<Rightarrow> bool" where
  "truthy (Str s) = (s \<noteq> [])"
| "truthy _ = False"

section \<open>Songs\<close>

datatype source = BraveSearch | MistralAIGeneration | OtherSource

record song =
  title :: field
  artist :: field
  album :: field
  year :: "int option"
  genre :: field
  source :: source
  reason :: field
  cultural_impact_score :: "rat option"
  alignment_score :: "rat option"
  basicScore :: "int option"

section \<open>Duplicate removal\<close>

text \<open>
  \<^verbatim>\<open>song.title?.toLowerCase().trim().slice(0, 20)\<close>: the optional chain gives
  \<^verbatim>\<open>undefined\<close> for an absent or null field, which the template prints as the word.
\<close>

fun keyPart :: "field \<Rightarrow> string" where
  "keyPart (Str s) = slice0 (trim (toLowerCase s)) 20"
| "keyPart _ = ''undefined''"

definition dedupeKey :: "('a song_scheme) \<Rightarrow> string" where
  "dedupeKey s = keyPart (title s) @ ''-'' @ keyPart (artist s)"

text \<open>The filter callback with its \<^verbatim>\<open>seen\<close> set threaded through.\<close>

fun filterSeen :: "string set \<Rightarrow> ('a song_scheme) list \<Rightarrow> ('a song_scheme) list" where
  "filterSeen seen [] = []"
| "filterSeen seen (s # ss) =
     (if dedupeKey s \<in> seen then filterSeen seen ss
      else s # filterSeen (insert (dedupeKey s) seen) ss)"

definition removeDuplicateSongsFast :: "('a song_scheme) list \<Rightarrow> ('a song_scheme) list" where
  "removeDuplicateSongsFast songs = filterSeen {} songs"

text \<open>
  Deduplication as the specification words it. A field is normalised by lowercasing,
  trimming and cutting to its first 20 characters; \<open>specKey\<close> is the pair of the normalised
  title and artist, and \<open>keepFirstBy\<close> keeps, for each key, the first song that has it.
  \<open>joinedKey\<close> is the one string that joins the two normalised fields with a hyphen, an
  absent field printing as the word "undefined".
\<close>

definition normalise :: "string \<Rightarrow> string" where
  "normalise x = take 20 (trim (toLowerCase x))"

fun normField :: "field \<Rightarrow> field" where
  "normField (Str x) = Str (normalise x)"
| "normField f = f"

definition specKey :: "('a song_scheme) \<Rightarrow> field \<times> field" where
  "specKey s = (normField (title s), normField (artist s))"

fun printedPart :: "field \<Rightarrow> string" where
  "printedPart (Str x) = normalise x"
| "printedPart f = ''undefined''"

definition joinedKey :: "('a song_scheme) \<Rightarrow> string" where
  "joinedKey s = printedPart (title s) @ CHR ''-'' # printedPart (artist s)"

fun keepFirstBy :: "('a \<Rightarrow> 'k) \<Rightarrow> 'a list \<Rightarrow> 'a list" where
  "keepFirstBy k [] = []"
| "keepFirstBy k (x # xs) = x # keepFirstBy k (filter (\<lambda>y. k y \<noteq> k x) xs)"

text \<open>
  The songs the model's strings are exact for: title and artist, where present, are ASCII
  text. \<open>present\<close> songs have both fields; \<open>plainTitle\<close> songs have no hyphen in the
  normalised title.
\<close>

definition isAscii :: "char \<Rightarrow> bool" where
  "isAscii c = (of_char c < (128 :: nat))"

fun asciiField :: "field \<Rightarrow> bool" where
  "asciiField (Str x) = list_all isAscii x"
| "asciiField f = True"

definition asciiSong :: "('a song_scheme) \<Rightarrow> bool" where
  "asciiSong s = (asciiField (title s) \<and> asciiField (artist s))"

fun isStr :: "field \<Rightarrow> bool" where
  "isStr (Str x) = True"
| "isStr f = False"

definition present :: "('a song_scheme) \<Rightarrow> bool" where
  "present s = (isStr (title s) \<and> isStr (artist s))"

definition plainTitle :: "('a song_scheme) \<Rightarrow> bool" where
  "plainTitle s = (CHR ''-'' \<notin> set (printedPart (title s)))"

section \<open>Basic scoring\<close>

text \<open>
  The body of the \<^verbatim>\<open>allSongs.map\<close> callback in \<^verbatim>\<open>combineAndVerifyAlignmentFast\<close>.
  \<^verbatim>\<open>song.year && song.year >= 1950 && song.year <= 2024\<close>: an absent year and the year 0 are
  falsy. JSON numbers are exact rationals here.
\<close>

definition yearInRange :: "int option \<Rightarrow> bool" where
  "yearInRange y = (case y of None \<Rightarrow> False | Some n \<Rightarrow> n \<noteq> 0 \<and> n \<ge> 1950 \<and> n \<le> 2024)"

definition impactHigh :: "rat option \<Rightarrow> bool" where
  "impactHigh c = (case c of None \<Rightarrow> False | Some n \<Rightarrow> n \<noteq> 0 \<and> n \<ge> 6)"

text \<open>\<^verbatim>\<open>!song.title || song.title.length < 2\<close>\<close>

definition missingOrShort :: "field \<Rightarrow> bool" where
  "missingOrShort f = (case f of Str s \<Rightarrow> s = [] \<or> length s < 2 | _ \<Rightarrow> True)"

definition searchTerms :: "string \<Rightarrow> string list" where
  "searchTerms originalPrompt =
     filter (\<lambda>term. length term > 2) (splitSpace (toLowerCase originalPrompt))"

definition songText :: "('a song_scheme) \<Rightarrow> string" where
  "songText s = toLowerCase (interpolate (title s) @ '' '' @ interpolate (artist s))"

definition keywordMatches :: "string \<Rightarrow> ('a song_scheme) \<Rightarrow> nat" where
  "keywordMatches originalPrompt s =
     length (filter (\<lambda>term. includesStr (songText s) term) (searchTerms originalPrompt))"

definition scoreSong :: "string \<Rightarrow> ('a song_scheme) \<Rightarrow> int" where
  "scoreSong originalPrompt s =
     (let score = 0;
          score = (if source s = MistralAIGeneration then score + 5
                   else if source s = BraveSearch then score + 2 else score);
          score = (if yearInRange (year s) then score + 2 else score);
          score = (if impactHigh (cultural_impact_score s) then score + 3 else score);
          score = score + int (keywordMatches originalPrompt s);
          score = (if missingOrShort (title s) then score - 3 else score);
          score = (if missingOrShort (artist s) then score - 3 else score)
      in score)"


section \<open>Regular expressions of the fallback analyzer\<close>

text \<open>
  The regular expressions of \<^verbatim>\<open>extractArtistFromPrompt\<close> and \<^verbatim>\<open>extractNumberFromPrompt\<close> are
  sequences of single character classes, greedy \<^verbatim>\<open>+\<close> repetitions of a class and \<^verbatim>\<open>\b\<close>
  assertions, with one capture group. \<open>matchItems\<close> is the backtracking matcher at a fixed
  start (a greedy repetition tries its longest run first, then shorter ones) and returns
  the number of characters each item consumed; \<open>searchFrom\<close> tries the start positions from
  left to right, as \<^verbatim>\<open>String.prototype.match\<close> does without the \<^verbatim>\<open>g\<close> flag.
\<close>

datatype item = One "char \<Rightarrow> bool" | Many1 "char \<Rightarrow> bool" | WordBoundary

record regex =
  items :: "item list"
  groupStart :: nat
  groupLen :: nat

definition isLetter :: "char \<Rightarrow> bool" where
  "isLetter c = (c \<in> set upperChars \<or> c \<in> set lowerChars)"

definition isDigit :: "char \<Rightarrow> bool" where
  "isDigit c = (c \<in> set ''0123456789'')"

text \<open>\<^verbatim>\<open>\w\<close> is \<^verbatim>\<open>[A-Za-z0-9_]\<close>.\<close>

definition isWordChar :: "char \<Rightarrow> bool" where
  "isWordChar c = (isLetter c \<or> isDigit c \<or> c = CHR ''_'')"

definition isWordOpt :: "char option \<Rightarrow> bool" where
  "isWordOpt c = (case c of None \<Rightarrow> False | Some d \<Rightarrow> isWordChar d)"

text \<open>A literal character under the \<^verbatim>\<open>i\<close> flag.\<close>

definition ci :: "char \<Rightarrow> char \<Rightarrow> bool" where
  "ci l c = (toLowerChar c = toLowerChar l)"

definition headOpt :: "'a list \<Rightarrow> 'a option" where
  "headOpt xs = (case xs of [] \<Rightarrow> None | x # _ \<Rightarrow> Some x)"

fun tryLengths :: "(nat \<Rightarrow> 'a option) \<Rightarrow> nat \<Rightarrow> 'a option" where
  "tryLengths f 0 = None"
| "tryLengths f (Suc n) = (case f (Suc n) of Some r \<Rightarrow> Some r | None \<Rightarrow> tryLengths f n)"

fun matchItems :: "item list \<Rightarrow> char option \<Rightarrow> string \<Rightarrow> nat list option" where
  "matchItems [] prev s = Some []"
| "matchItems (One p # its) prev s =
     (case s of [] \<Rightarrow> None
      | c # cs \<Rightarrow> if p c then map_option ((#) 1) (matchItems its (Some c) cs) else None)"
| "matchItems (Many1 p # its) prev s =
     tryLengths (\<lambda>n. map_option ((#) n) (matchItems its (Some (s ! (n - 1))) (drop n s)))
       (length (takeWhile p s))"
| "matchItems (WordBoundary # its) prev s =
     (if isWordOpt prev \<noteq> isWordOpt (headOpt s)
      then map_option ((#) 0) (matchItems its prev s) else None)"

fun searchFrom :: "item list \<Rightarrow> char option \<Rightarrow> string \<Rightarrow> (string \<times> nat list) option" where
  "searchFrom its prev [] =
     (case matchItems its prev [] of Some ls \<Rightarrow> Some ([], ls) | None \<Rightarrow> None)"
| "searchFrom its prev (c # cs) =
     (case matchItems its prev (c # cs) of Some ls \<Rightarrow> Some (c # cs, ls)
      | None \<Rightarrow> searchFrom its (Some c) cs)"

text \<open>\<^verbatim>\<open>prompt.match(pattern)\<close>, reduced to capture group 1 (\<^verbatim>\<open>match[1]\<close>) of the first match.\<close>

definition matchGroup1 :: "regex \<Rightarrow> string \<Rightarrow> string option" where
  "matchGroup1 r s =
     (case searchFrom (items r) None s of None \<Rightarrow> None
      | Some (rest, ls) \<Rightarrow>
          Some (take (sum_list (take (groupLen r) (drop (groupStart r) ls)))
                 (drop (sum_list (take (groupStart r) ls)) rest)))"

text \<open>\<^verbatim>\<open>/by ([A-Za-z\s]+)/i\<close>\<close>

definition byPattern :: regex where
  "byPattern = \<lparr>items = [One (ci CHR ''b''), One (ci CHR ''y''), One (ci CHR '' ''),
       Many1 (\<lambda>c. isLetter c \<or> isSpace c)], groupStart = 3, groupLen = 1\<rparr>"

text \<open>\<^verbatim>\<open>/from ([A-Za-z\s]+)/i\<close>\<close>

definition fromPattern :: regex where
  "fromPattern = \<lparr>items = [One (ci CHR ''f''), One (ci CHR ''r''), One (ci CHR ''o''),
       One (ci CHR ''m''), One (ci CHR '' ''), Many1 (\<lambda>c. isLetter c \<or> isSpace c)],
     groupStart = 5, groupLen = 1\<rparr>"

text \<open>\<^verbatim>\<open>/([A-Z][a-z]+\s[A-Z][a-z]+)\s+songs/i\<close>: under the \<^verbatim>\<open>i\<close> flag both classes are the letters.\<close>

definition songsPattern :: regex where
  "songsPattern = \<lparr>items = [One isLetter, Many1 isLetter, One isSpace, One isLetter,
       Many1 isLetter, Many1 isSpace, One (ci CHR ''s''), One (ci CHR ''o''),
       One (ci CHR ''n''), One (ci CHR ''g''), One (ci CHR ''s'')],
     groupStart = 0, groupLen = 5\<rparr>"

definition artistPatterns :: "regex list" where
  "artistPatterns = [byPattern, fromPattern, songsPattern]"

fun firstArtist :: "regex list \<Rightarrow> string \<Rightarrow> string option" where
  "firstArtist [] prompt = None"
| "firstArtist (pattern # patterns) prompt =
     (case matchGroup1 pattern prompt of
        Some m \<Rightarrow> if m \<noteq> [] \<and> length m > 3 then Some (trim m) else firstArtist patterns prompt
      | None \<Rightarrow> firstArtist patterns prompt)"

definition extractArtistFromPrompt :: "string \<Rightarrow> string option" where
  "extractArtistFromPrompt prompt = firstArtist artistPatterns prompt"

text \<open>\<^verbatim>\<open>/\b(\d+)\b/\<close>\<close>

definition numberPattern :: regex where
  "numberPattern = \<lparr>items = [WordBoundary, Many1 isDigit, WordBoundary],
     groupStart = 1, groupLen = 1\<rparr>"

definition digitValue :: "char \<Rightarrow> nat" where
  "digitValue c = (case map_of (zip ''0123456789'' [0, 1, 2, 3, 4, 5, 6, 7, 8, 9]) c of
                     Some d \<Rightarrow> d | None \<Rightarrow> 0)"

text \<open>\<^verbatim>\<open>parseInt\<close> on a string of decimal digits (exact, where JavaScript rounds above \<open>2^53\<close>).\<close>

definition parseInt :: "string \<Rightarrow> int" where
  "parseInt ds = int (foldl (\<lambda>acc c. 10 * acc + digitValue c) 0 ds)"

definition extractNumberFromPrompt :: "string \<Rightarrow> int option" where
  "extractNumberFromPrompt prompt = map_option parseInt (matchGroup1 numberPattern prompt)"

section \<open>Prompt analysis\<close>

record constraints =
  targetCount :: "int option"
  minCount :: "int option"
  decade :: field
  specificArtist :: field
  mood :: field

record analysis =
  constraints :: constraints
  searchQueries :: "string list"
  refinedPrompt :: string
  keywords' :: "string list"
  originalEmbedding :: "real list option"

datatype error =
    UpstreamError | TimeoutError | ParseError | TypeError | ReferenceError
  | NotEnoughQualityResults nat int

text \<open>The \<^verbatim>\<open>catch\<close> branch of \<^verbatim>\<open>analyzeUserPromptFast\<close>.\<close>

definition analysisFallback :: "string \<Rightarrow> analysis" where
  "analysisFallback prompt =
     (let fallbackCount = (case extractNumberFromPrompt prompt of
                             None \<Rightarrow> 10 | Some n \<Rightarrow> if n = 0 then 10 else n)
      in \<lparr>constraints = \<lparr>targetCount = Some (min fallbackCount 15),
                          minCount = Some (min fallbackCount 3),
                          decade = Null,
                          specificArtist = (case extractArtistFromPrompt prompt of
                                              None \<Rightarrow> Null | Some a \<Rightarrow> Str a),
                          mood = Str ''balanced''\<rparr>,
          searchQueries = [prompt @ '' songs best'', prompt @ '' music top''],
          refinedPrompt = prompt,
          keywords' = take 5 (filter (\<lambda>w. length w > 2) (splitSpace prompt)),
          originalEmbedding = None\<rparr>)"

text \<open>
  \<^verbatim>\<open>analyzeUserPromptFast\<close>: \<open>outcome\<close> is what the \<^verbatim>\<open>try\<close> block produces from the completion
  call, the embeddings call and \<^verbatim>\<open>JSON.parse\<close>: the analysis, or the error one of them raised.
\<close>

definition analyzeUserPromptFast :: "(error + analysis) \<Rightarrow> string \<Rightarrow> analysis" where
  "analyzeUserPromptFast outcome prompt =
     (case outcome of Inr a \<Rightarrow> a | Inl err \<Rightarrow> analysisFallback prompt)"

section \<open>Catalog resolver\<close>

record track =
  name :: string
  artists :: "string list"
  uri :: string

text \<open>\<^verbatim>\<open>bestMatch.classicMetadata = {...song, search_strategy: query}\<close>\<close>

record resolvedTrack = track +
  classicMetadata :: song
  search_strategy :: string

text \<open>
  \<^verbatim>\<open>calculateStringSimilarityFast\<close>, with \<^verbatim>\<open>new Set(str)\<close> as the list of distinct characters.
  The quotient is an exact rational where JavaScript rounds to a double.
\<close>

definition calculateStringSimilarityFast :: "string \<Rightarrow> string \<Rightarrow> rat" where
  "calculateStringSimilarityFast str1 str2 =
     (if str1 = str2 then 1
      else if length str1 = 0 \<or> length str2 = 0 then 0
      else (let chars1 = remdups (toLowerCase str1);
                chars2 = remdups (toLowerCase str2);
                intersection = remdups (filter (\<lambda>x. x \<in> set chars2) chars1)
            in of_nat (length intersection) / of_nat (max (length chars1) (length chars2))))"

text \<open>
  The loop body of \<^verbatim>\<open>findBestTrackMatchFast\<close> up to \<^verbatim>\<open>combinedScore\<close>. Reading
  \<^verbatim>\<open>.toLowerCase()\<close> of an absent title or artist raises a TypeError; the artist is only read
  inside the \<^verbatim>\<open>map\<close> over \<^verbatim>\<open>track.artists\<close>. \<^verbatim>\<open>Math.max()\<close> of no arguments is \<open>-Infinity\<close>, and
  so is the combined score then: \<open>None\<close>.
\<close>

definition combinedScore :: "('a track_scheme) \<Rightarrow> ('b song_scheme) \<Rightarrow> error + rat option" where
  "combinedScore t targetSong =
     (case title targetSong of
        Str ttl \<Rightarrow>
          (let titleSim = calculateStringSimilarityFast (toLowerCase (name t)) (toLowerCase ttl)
           in case artists t of
                [] \<Rightarrow> Inr None
              | a # as \<Rightarrow>
                  (case artist targetSong of
                     Str art \<Rightarrow>
                       (let artistSim = fold max
                              (map (\<lambda>n. calculateStringSimilarityFast (toLowerCase n) (toLowerCase art)) as)
                              (calculateStringSimilarityFast (toLowerCase a) (toLowerCase art))
                        in Inr (Some (titleSim * (6 / 10) + artistSim * (4 / 10))))
                   | _ \<Rightarrow> Inl TypeError))
      | _ \<Rightarrow> Inl TypeError)"

definition decent :: "rat option \<Rightarrow> bool" where
  "decent sc = (case sc of None \<Rightarrow> False | Some x \<Rightarrow> x > 5 / 10)"

text \<open>The \<^verbatim>\<open>for (const track of tracks)\<close> loop: the first track scoring above 0.5, if any.\<close>

fun firstDecent :: "('a track_scheme) list \<Rightarrow> ('b song_scheme) \<Rightarrow> error + ('a track_scheme) option" where
  "firstDecent [] targetSong = Inr None"
| "firstDecent (t # ts) targetSong =
     (case combinedScore t targetSong of
        Inl err \<Rightarrow> Inl err
      | Inr sc \<Rightarrow> if decent sc then Inr (Some t) else firstDecent ts targetSong)"

definition findBestTrackMatchFast ::
  "('a track_scheme) list \<Rightarrow> ('b song_scheme) \<Rightarrow> error + ('a track_scheme) option" where
  "findBestTrackMatchFast tracks targetSong =
     (case tracks of
        [] \<Rightarrow> Inr None
      | first # _ \<Rightarrow>
          (case firstDecent tracks targetSong of
             Inl err \<Rightarrow> Inl err
           | Inr (Some t) \<Rightarrow> Inr (Some t)
           | Inr None \<Rightarrow> Inr (Some first)))"

text \<open>A track is acceptable for a song when its combined score is computed and exceeds 0.5.\<close>

definition acceptable :: "('a track_scheme) \<Rightarrow> ('b song_scheme) \<Rightarrow> bool" where
  "acceptable t targetSong =
     (case combinedScore t targetSong of Inr sc \<Rightarrow> decent sc | Inl err \<Rightarrow> False)"

definition strictQuery :: "song \<Rightarrow> string" where
  "strictQuery s = ''track:\"'' @ interpolate (title s) @ ''\" artist:\"'' @ interpolate (artist s) @ ''\"''"

definition looseQuery :: "song \<Rightarrow> string" where
  "looseQuery s = interpolate (title s) @ '' '' @ interpolate (artist s)"

definition searchStrategies :: "song \<Rightarrow> string list" where
  "searchStrategies s = [strictQuery s, looseQuery s]"

text \<open>
  The catalog search is a parameter: \<open>fetch query token\<close> is what
  \<^verbatim>\<open>fetchFromSpotify\<close> gives for the search URL of \<open>query\<close>, reduced to
  \<^verbatim>\<open>response?.tracks?.items || []\<close>, or the error it raised. \<open>tryStrategies\<close> is the
  \<^verbatim>\<open>for (const query of searchStrategies)\<close> loop inside the \<^verbatim>\<open>try\<close>, whose \<^verbatim>\<open>catch\<close> returns
  \<^verbatim>\<open>null\<close>.
\<close>

type_synonym catalog = "string \<Rightarrow> string \<Rightarrow> error + track list"

fun tryStrategies :: "catalog \<Rightarrow> string \<Rightarrow> song \<Rightarrow> string list \<Rightarrow> resolvedTrack option" where
  "tryStrategies fetch token s [] = None"
| "tryStrategies fetch token s (query # queries) =
     (case fetch query token of
        Inl err \<Rightarrow> None
      | Inr tracks \<Rightarrow>
          (case findBestTrackMatchFast tracks s of
             Inl err \<Rightarrow> None
           | Inr (Some bestMatch) \<Rightarrow>
               Some (track.extend bestMatch
                       (resolvedTrack.fields s query))
           | Inr None \<Rightarrow> tryStrategies fetch token s queries))"

definition resolveSong :: "catalog \<Rightarrow> string \<Rightarrow> song \<Rightarrow> resolvedTrack option" where
  "resolveSong fetch token s = tryStrategies fetch token s (searchStrategies s)"

definition maxConcurrentRequests :: nat where
  "maxConcurrentRequests = 8"

definition maxCandidatesForEmbedding :: nat where
  "maxCandidatesForEmbedding = 15"

definition skipSemanticSimilarity :: bool where
  "skipSemanticSimilarity = False"

text \<open>
  The batch loop of \<^verbatim>\<open>searchTracksOnSpotifyFast\<close>: \<^verbatim>\<open>Promise.all\<close> keeps the order of the batch,
  \<^verbatim>\<open>filter(Boolean)\<close> drops the unresolved songs.
\<close>

function spotifyLoop ::
  "catalog \<Rightarrow> string \<Rightarrow> song list \<Rightarrow> nat \<Rightarrow> resolvedTrack list \<Rightarrow> resolvedTrack list" where
  "spotifyLoop fetch token songs i results =
     (if i < length songs
      then spotifyLoop fetch token songs (i + maxConcurrentRequests)
             (results @ List.map_filter (resolveSong fetch token)
                          (take maxConcurrentRequests (drop i songs)))
      else results)"
  by pat_completeness auto
termination
  by (relation "measure (\<lambda>(fetch, token, songs, i, results). length songs - i)")
     (auto simp: maxConcurrentRequests_def)

definition searchTracksOnSpotifyFast :: "catalog \<Rightarrow> song list \<Rightarrow> string \<Rightarrow> resolvedTrack list" where
  "searchTracksOnSpotifyFast fetch songs token = spotifyLoop fetch token songs 0 []"

section \<open>Fusion and verification\<close>

text \<open>The verifier's answer after \<^verbatim>\<open>JSON.parse\<close>: an array of songs, or some other JSON value.\<close>

datatype parsed = NotArray | Array "song list"

text \<open>The callback of \<^verbatim>\<open>verified.filter\<close>.\<close>

definition keepVerified :: "constraints \<Rightarrow> song \<Rightarrow> bool" where
  "keepVerified cs s =
     (case alignment_score s of
        None \<Rightarrow> False
      | Some sc \<Rightarrow>
          if sc = 0 \<or> sc < 6 then False
          else if truthy (specificArtist cs)
          then (let requestedArtist = toLowerCase (interpolate (specificArtist cs));
                    songArtist = (case artist s of
                                    Str a \<Rightarrow> if toLowerCase a = [] then [] else toLowerCase a
                                  | _ \<Rightarrow> [])
                in if \<not> includesStr songArtist requestedArtist \<and>
                      \<not> includesStr requestedArtist songArtist
                   then False else True)
          else True)"

text \<open>\<^verbatim>\<open>constraints.targetCount || 12\<close>\<close>

definition targetCountOr :: "constraints \<Rightarrow> int \<Rightarrow> int" where
  "targetCountOr cs d = (case targetCount cs of None \<Rightarrow> d | Some n \<Rightarrow> if n = 0 then d else n)"

definition scoredSongs :: "string \<Rightarrow> song list \<Rightarrow> song list" where
  "scoredSongs originalPrompt allSongs =
     map (\<lambda>s. s\<lparr>basicScore := Some (scoreSong originalPrompt s)\<rparr>) allSongs"

text \<open>
  \<^verbatim>\<open>.sort((a, b) => b.basicScore - a.basicScore)\<close> is a stable sort, descending by score;
  every element carries a score here.
\<close>

definition topCandidates :: "string \<Rightarrow> song list \<Rightarrow> song list" where
  "topCandidates originalPrompt allSongs =
     take maxCandidatesForEmbedding
       (sort_key (\<lambda>s. - (case basicScore s of Some k \<Rightarrow> k | None \<Rightarrow> 0))
          (scoredSongs originalPrompt allSongs))"

text \<open>
  The external calls of the fusion stage are parameters. \<open>semanticRank\<close> stands for
  \<^verbatim>\<open>rankSongsBySementicSimilarityFast\<close>, which catches every error of its own; \<open>verification\<close>
  is the completion call on the first ten ranked songs followed by \<^verbatim>\<open>JSON.parse\<close>: the parsed
  value, or the error raised.
\<close>

record fusionEnv =
  semanticRank :: "song list \<Rightarrow> real list \<Rightarrow> song list"
  verification :: "string \<Rightarrow> song list \<Rightarrow> error + parsed"

text \<open>
  The identifiers bound where the \<^verbatim>\<open>catch\<close> block of \<^verbatim>\<open>combineAndVerifyAlignmentFast\<close> is
  evaluated: its own parameter, the parameters of the function, and the bindings of the
  module (the import, the three constants, the functions). The \<^verbatim>\<open>const\<close> declarations of the
  \<^verbatim>\<open>try\<close> block (\<^verbatim>\<open>allSongs\<close>, \<^verbatim>\<open>topCandidates\<close>, \<^verbatim>\<open>verified\<close>, \<^verbatim>\<open>filtered\<close>, ...) are scoped
  to that block and are not among them.
\<close>

definition moduleBindings :: "string list" where
  "moduleBindings =
     [''fetchFromSpotify'', ''braveApiKey'', ''mistralApiKey'', ''SPEED_CONFIG'',
      ''callMistralAI'', ''getMistralEmbeddingsBatch'', ''generateClassicRecommendations'',
      ''analyzeUserPromptFast'', ''searchWithBraveAPIFast'', ''extractSongsFromBraveResultsFast'',
      ''generateAIRecommendationsFast'', ''combineAndVerifyAlignmentFast'',
      ''rankSongsBySementicSimilarityFast'', ''searchTracksOnSpotifyFast'',
      ''findBestTrackMatchFast'', ''removeDuplicateSongsFast'', ''calculateStringSimilarityFast'',
      ''extractArtistFromPrompt'', ''cosineSimilarity'', ''extractNumberFromPrompt'',
      ''extractYear'']"

definition catchBindings :: "string list" where
  "catchBindings =
     [''err'', ''webResults'', ''aiResults'', ''originalPrompt'', ''originalEmbedding'',
      ''constraints''] @ moduleBindings"

text \<open>
  \<^verbatim>\<open>combineAndVerifyAlignmentFast\<close>. Every failure of the verification call or of
  \<^verbatim>\<open>JSON.parse\<close> enters the \<^verbatim>\<open>catch\<close> block, whose \<^verbatim>\<open>return\<close> starts by evaluating the identifier
  \<^verbatim>\<open>allSongs\<close>: unbound there, it raises a ReferenceError, which leaves the function.
\<close>

definition combineAndVerifyAlignmentFast ::
  "fusionEnv \<Rightarrow> song list \<Rightarrow> song list \<Rightarrow> string \<Rightarrow> real list option \<Rightarrow> constraints
     \<Rightarrow> error + song list" where
  "combineAndVerifyAlignmentFast env webResults aiResults originalPrompt origEmbedding cs =
     (let allSongs = removeDuplicateSongsFast (webResults @ aiResults)
      in if length allSongs = 0 then Inr []
         else (let top = topCandidates originalPrompt allSongs;
                   rankedSongs =
                     (case origEmbedding of
                        Some emb \<Rightarrow>
                          if \<not> skipSemanticSimilarity \<and> length top > 0
                          then semanticRank env top emb else top
                      | None \<Rightarrow> top)
               in case verification env originalPrompt (slice0 rankedSongs 10) of
                    Inr verified \<Rightarrow>
                      (let filtered = (case verified of
                                         Array vs \<Rightarrow> filter (keepVerified cs) vs
                                       | NotArray \<Rightarrow> [])
                       in Inr (slice0 filtered (targetCountOr cs 12)))
                  | Inl err \<Rightarrow>
                      if ''allSongs'' \<in> set catchBindings
                      then Inr (slice0 (filter (\<lambda>s. truthy (title s) \<and> truthy (artist s)) allSongs)
                                  (targetCountOr cs 12))
                      else Inl ReferenceError))"

text \<open>
  What the comment in the \<^verbatim>\<open>catch\<close> block and the specification describe as the fallback:
  the deduplicated list, filtered to truthy title and artist, cut to the target count.
\<close>

definition specFallback :: "song list \<Rightarrow> song list \<Rightarrow> constraints \<Rightarrow> song list" where
  "specFallback webResults aiResults cs =
     slice0 (filter (\<lambda>s. truthy (title s) \<and> truthy (artist s))
               (removeDuplicateSongsFast (webResults @ aiResults)))
       (targetCountOr cs 12)"

section \<open>The entry point\<close>

text \<open>
  The remaining external calls: the analysis outcome, the two source fetchers (each catches
  its own errors and returns a list), and the catalog search.
\<close>

record env = fusionEnv +
  analysisOutcome :: "string \<Rightarrow> error + analysis"
  searchWithBraveAPIFast :: "string list \<Rightarrow> song list"
  generateAIRecommendationsFast :: "string \<Rightarrow> constraints \<Rightarrow> song list"
  fetchFromSpotify :: catalog

text \<open>\<^verbatim>\<open>Math.min(x, k)\<close> where \<^verbatim>\<open>x\<close> may be \<^verbatim>\<open>undefined\<close>: the result is then NaN, here \<open>None\<close>.\<close>

definition mathMin :: "int option \<Rightarrow> int \<Rightarrow> int option" where
  "mathMin x k = map_option (\<lambda>n. min n k) x"

text \<open>
  \<^verbatim>\<open>if (alignedSongs.length < Math.min(minCount, 3)) throw new Error(...)\<close>: the comparison is
  false for NaN.
\<close>

definition notEnough :: "nat \<Rightarrow> int option \<Rightarrow> error option" where
  "notEnough found need =
     (case need of None \<Rightarrow> None
      | Some k \<Rightarrow> if int found < k then Some (NotEnoughQualityResults found k) else None)"

text \<open>\<^verbatim>\<open>xs.slice(0, NaN)\<close> is empty.\<close>

definition sliceTo :: "'a list \<Rightarrow> int option \<Rightarrow> 'a list" where
  "sliceTo xs m = (case m of None \<Rightarrow> [] | Some k \<Rightarrow> slice0 xs k)"

text \<open>The \<^verbatim>\<open>try\<close> block of \<^verbatim>\<open>generateClassicRecommendations\<close>, in its three steps.\<close>

definition analysisResult :: "env \<Rightarrow> string \<Rightarrow> analysis" where
  "analysisResult e prompt = analyzeUserPromptFast (analysisOutcome e prompt) prompt"

definition alignedSongs :: "env \<Rightarrow> string \<Rightarrow> error + song list" where
  "alignedSongs e prompt =
     (let a = analysisResult e prompt;
          webResults = searchWithBraveAPIFast e (searchQueries a);
          aiResults = generateAIRecommendationsFast e (refinedPrompt a) (constraints a)
      in combineAndVerifyAlignmentFast (fusionEnv.truncate e) webResults aiResults prompt
           (originalEmbedding a) (constraints a))"

definition workflow :: "env \<Rightarrow> string \<Rightarrow> string \<Rightarrow> error + resolvedTrack list" where
  "workflow e prompt token =
     (case alignedSongs e prompt of
        Inl err \<Rightarrow> Inl err
      | Inr aligned \<Rightarrow>
          (let cs = constraints (analysisResult e prompt)
           in case notEnough (length aligned) (mathMin (minCount cs) 3) of
                Some err \<Rightarrow> Inl err
              | None \<Rightarrow>
                  Inr (searchTracksOnSpotifyFast (fetchFromSpotify e)
                         (sliceTo aligned (mathMin (targetCount cs) 15)) token)))"

text \<open>The \<^verbatim>\<open>catch\<close> block logs the message and returns the empty array.\<close>

definition generateClassicRecommendations :: "env \<Rightarrow> string \<Rightarrow> string \<Rightarrow> resolvedTrack list" where
  "generateClassicRecommendations e prompt token =
     (case workflow e prompt token of Inl err \<Rightarrow> [] | Inr spotifyTracks \<Rightarrow> spotifyTracks)"

section \<open>Cosine similarity\<close>

text \<open>
  JavaScript numbers are modelled as exact reals together with the three values a division
  by zero produces; rounding, overflow and underflow of doubles are not modelled.
\<close>

datatype jsnum = NaN | PosInfinity | NegInfinity | Finite real

text \<open>
  \<^verbatim>\<open>vecA.reduce((sum, a, i) => sum + a * vecB[i], 0)\<close>: past the end of \<^verbatim>\<open>vecB\<close> the read is
  \<^verbatim>\<open>undefined\<close> and the sum becomes NaN (\<open>None\<close>).
\<close>

fun dotProduct :: "real list \<Rightarrow> real list \<Rightarrow> real option" where
  "dotProduct [] vecB = Some 0"
| "dotProduct (a # as) [] = None"
| "dotProduct (a # as) (b # bs) = map_option (\<lambda>s. a * b + s) (dotProduct as bs)"

definition magnitude :: "real list \<Rightarrow> real" where
  "magnitude v = sqrt (foldl (\<lambda>sum a. sum + a * a) 0 v)"

definition divide :: "real \<Rightarrow> real \<Rightarrow> jsnum" where
  "divide x y =
     (if y = 0 then (if x = 0 then NaN else if x > 0 then PosInfinity else NegInfinity)
      else Finite (x / y))"

definition cosineSimilarity :: "real list \<Rightarrow> real list \<Rightarrow> jsnum" where
  "cosineSimilarity vecA vecB =
     (let magnitudeA = magnitude vecA;
          magnitudeB = magnitude vecB
      in case dotProduct vecA vecB of
           None \<Rightarrow> NaN
         | Some d \<Rightarrow> divide d (magnitudeA * magnitudeB))"

text \<open>\<^verbatim>\<open>{...song, similarity_score: ...}\<close>\<close>

record rankedSong = song +
  similarity_score :: jsnum

text \<open>
  \<^verbatim>\<open>songsWithSimilarity\<close> in \<^verbatim>\<open>rankSongsBySementicSimilarityFast\<close>, the array that is then
  sorted by \<^verbatim>\<open>b.similarity_score - a.similarity_score\<close>; \<open>embeddings\<close> holds
  \<^verbatim>\<open>embeddingData[index].embedding\<close>. Reading past the end of the embeddings raises a
  TypeError, which the function catches.
\<close>

fun songsWithSimilarity :: "song list \<Rightarrow> real list \<Rightarrow> real list list \<Rightarrow> error + rankedSong list" where
  "songsWithSimilarity [] origEmbedding embeddings = Inr []"
| "songsWithSimilarity (s # ss) origEmbedding [] = Inl TypeError"
| "songsWithSimilarity (s # ss) origEmbedding (v # vs) =
     (case songsWithSimilarity ss origEmbedding vs of
        Inl err \<Rightarrow> Inl err
      | Inr rest \<Rightarrow>
          Inr (song.extend s (rankedSong.fields (cosineSimilarity origEmbedding v)) # rest))"

section \<open>Example data\<close>

definition mkSong :: "field \<Rightarrow> field \<Rightarrow> source \<Rightarrow> rat option \<Rightarrow> song" where
  "mkSong t a src al =
     \<lparr>title = t, artist = a, album = Undefined, year = None, genre = Undefined, source = src,
      reason = Undefined, cultural_impact_score = None, alignment_score = al,
      basicScore = None\<rparr>"

definition longTitleExtended :: song where
  "longTitleExtended = mkSong (Str ''A Very Long Song Title Extended'') (Str ''X'') BraveSearch None"

definition longTitleTruncated :: song where
  "longTitleTruncated =
     (mkSong (Str ''A Very Long Song Title Truncated'') (Str '' x '') MistralAIGeneration None)
       \<lparr>year := Some 1999\<rparr>"

definition heyJude :: song where
  "heyJude = mkSong (Str ''Hey Jude'') (Str ''The Beatles'') BraveSearch None"

definition letItBe :: song where
  "letItBe = mkSong (Str ''Let It Be'') (Str ''The Beatles'') MistralAIGeneration None"

definition noConstraints :: constraints where
  "noConstraints = \<lparr>targetCount = Some 12, minCount = Some 3, decade = Null,
                     specificArtist = Null, mood = Null\<rparr>"

text \<open>A fusion environment whose verification call times out.\<close>

definition verifierDown :: fusionEnv where
  "verifierDown = \<lparr>semanticRank = (\<lambda>songs emb. songs),
                    verification = (\<lambda>prompt songs. Inl TimeoutError)\<rparr>"

text \<open>A verifier that answers with the given array.\<close>

definition verifierAnswers :: "song list \<Rightarrow> fusionEnv" where
  "verifierAnswers vs = \<lparr>semanticRank = (\<lambda>songs emb. songs),
                          verification = (\<lambda>prompt songs. Inr (Array vs))\<rparr>"

text \<open>
  Environments of the entry point: the analysis call fails (so the fallback analysis is
  used), web search finds \<open>heyJude\<close>, the generator proposes \<open>letItBe\<close>, the catalog has
  nothing; the verifier either rates both songs 8 or times out.
\<close>

definition twoAligned :: env where
  "twoAligned = fusionEnv.extend
     (verifierAnswers [heyJude\<lparr>alignment_score := Some 8\<rparr>, letItBe\<lparr>alignment_score := Some 8\<rparr>])
     (env.fields (\<lambda>prompt. Inl UpstreamError) (\<lambda>queries. [heyJude])
        (\<lambda>prompt cs. [letItBe]) (\<lambda>query token. Inr []))"

definition upstreamDown :: env where
  "upstreamDown = fusionEnv.extend verifierDown
     (env.fields (\<lambda>prompt. Inl UpstreamError) (\<lambda>queries. [heyJude])
        (\<lambda>prompt cs. [letItBe]) (\<lambda>query token. Inr []))"

text \<open>A verified song without an artist, and a request for one specific artist.\<close>

definition noArtistSong :: song where
  "noArtistSong = mkSong (Str ''Hello'') Undefined MistralAIGeneration (Some 7)"

definition adeleOnly :: constraints where
  "adeleOnly = \<lparr>targetCount = Some 5, minCount = Some 3, decade = Null,
                 specificArtist = Str ''Adele'', mood = Null\<rparr>"

text \<open>
  A song, a catalog track that does not resemble it and one that does; a catalog that
  answers the strict query with the first and the loose query with the second.
\<close>

definition helloAdele :: song where
  "helloAdele = mkSong (Str ''Hello'') (Str ''Adele'') MistralAIGeneration (Some 8)"

definition wrongTrack :: track where
  "wrongTrack = \<lparr>name = ''Zzz'', artists = [''Qqq''], uri = ''spotify:track:1''\<rparr>"

definition rightTrack :: track where
  "rightTrack = \<lparr>name = ''Hello'', artists = [''Adele''], uri = ''spotify:track:2''\<rparr>"

definition strictWrongLooseRight :: catalog where
  "strictWrongLooseRight =
     (\<lambda>query token. if query = strictQuery helloAdele then Inr [wrongTrack]
                     else if query = looseQuery helloAdele then Inr [rightTrack] else Inr [])"

definition strictEmptyLooseRight :: catalog where
  "strictEmptyLooseRight =
     (\<lambda>query token. if query = looseQuery helloAdele then Inr [wrongTrack, rightTrack] else Inr [])"

definition emptyCatalog :: catalog where
  "emptyCatalog = (\<lambda>query token. Inr [])"

text \<open>
  Two songs that differ in title and in artist and whose joined keys are the same string,
  and a second song of the same title by another artist.
\<close>

definition twentyOne :: song where
  "twentyOne = mkSong (Str ''Twenty-One'') (Str ''Pilots'') BraveSearch None"

definition twenty :: song where
  "twenty = mkSong (Str ''Twenty'') (Str ''One-Pilots'') MistralAIGeneration None"

definition helloLionel :: song where
  "helloLionel = mkSong (Str ''Hello'') (Str ''Lionel Richie'') BraveSearch None"

section \<open>Properties of duplicate removal\<close>

lemma filterSeen_keys_fresh:
  "dedupeKey ` set (filterSeen seen xs) \<inter> seen = {}"
  by (induction xs arbitrary: seen) auto

lemma filterSeen_distinct:
  "distinct (map dedupeKey (filterSeen seen xs))"
proof (induction xs arbitrary: seen)
  case Nil
  show ?case by simp
next
  case (Cons x xs)
  have "dedupeKey x \<notin> dedupeKey ` set (filterSeen (insert (dedupeKey x) seen) xs)"
    using filterSeen_keys_fresh [of "insert (dedupeKey x) seen" xs] by blast
  with Cons show ?case by simp
qed

lemma filterSeen_find:
  "dedupeKey s \<notin> seen \<Longrightarrow>
   find (\<lambda>t. dedupeKey t = dedupeKey s) (filterSeen seen xs) =
   find (\<lambda>t. dedupeKey t = dedupeKey s) xs"
proof (induction xs arbitrary: seen)
  case Nil
  show ?case by simp
next
  case (Cons x xs)
  show ?case
  proof (cases "dedupeKey x \<in> seen")
    case True
    with Cons.prems have "dedupeKey x \<noteq> dedupeKey s" by auto
    with True Cons show ?thesis by simp
  next
    case False
    show ?thesis
    proof (cases "dedupeKey x = dedupeKey s")
      case True
      with False show ?thesis by simp
    next
      case neq: False
      with Cons.prems have "dedupeKey s \<notin> insert (dedupeKey x) seen" by auto
      from Cons.IH [OF this] False neq show ?thesis by simp
    qed
  qed
qed

lemma filterSeen_subseq: "subseq (filterSeen seen xs) xs"
  by (induction xs arbitrary: seen) auto

lemma filterSeen_id:
  "distinct (map dedupeKey xs) \<Longrightarrow> dedupeKey ` set xs \<inter> seen = {} \<Longrightarrow> filterSeen seen xs = xs"
proof (induction xs arbitrary: seen)
  case Nil
  show ?case by simp
next
  case (Cons x xs)
  from Cons.prems have fresh: "dedupeKey x \<notin> seen" by auto
  from Cons.prems have "distinct (map dedupeKey xs)" by simp
  moreover from Cons.prems have "dedupeKey ` set xs \<inter> insert (dedupeKey x) seen = {}" by auto
  ultimately have "filterSeen (insert (dedupeKey x) seen) xs = xs" by (rule Cons.IH)
  with fresh show ?case by simp
qed

lemma slice0_take: "0 \<le> n \<Longrightarrow> slice0 xs n = take (nat n) xs"
  by (simp add: slice0_def)

lemma filterSeen_append:
  "filterSeen seen (xs @ ys) = filterSeen seen xs @ filterSeen (seen \<union> dedupeKey ` set xs) ys"
  by (induction xs arbitrary: seen) (auto simp: insert_absorb)

lemma filterSeen_drop_later:
  assumes "dedupeKey a = dedupeKey b"
  shows "filterSeen seen (xs @ a # ys @ b # zs) = filterSeen seen (xs @ a # ys @ zs)"
proof -
  have "dedupeKey b \<in> seen \<union> dedupeKey ` set (xs @ a # ys)"
    using assms by simp
  then have "filterSeen (seen \<union> dedupeKey ` set (xs @ a # ys)) (b # zs) =
             filterSeen (seen \<union> dedupeKey ` set (xs @ a # ys)) zs"
    by simp
  then have "filterSeen seen ((xs @ a # ys) @ b # zs) = filterSeen seen ((xs @ a # ys) @ zs)"
    by (simp only: filterSeen_append)
  then show ?thesis by simp
qed

lemma dedupeKey_joinedKey: "dedupeKey s = joinedKey s"
proof -
  have "keyPart f = printedPart f" for f
    by (cases f) (simp_all add: normalise_def slice0_def)
  then show ?thesis by (simp add: dedupeKey_def joinedKey_def)
qed

lemma filterSeen_keepFirstBy:
  "filterSeen seen xs = keepFirstBy dedupeKey (filter (\<lambda>x. dedupeKey x \<notin> seen) xs)"
proof (induction xs arbitrary: seen)
  case Nil
  show ?case by simp
next
  case (Cons x xs)
  show ?case
  proof (cases "dedupeKey x \<in> seen")
    case True
    with Cons show ?thesis by simp
  next
    case False
    have "filter (\<lambda>y. dedupeKey y \<noteq> dedupeKey x) (filter (\<lambda>y. dedupeKey y \<notin> seen) xs) =
          filter (\<lambda>y. dedupeKey y \<notin> insert (dedupeKey x) seen) xs"
      by (simp add: conj_commute)
    with False Cons [of "insert (dedupeKey x) seen"] show ?thesis by simp
  qed
qed

lemma keepFirstBy_cong:
  "(\<And>x y. x \<in> set xs \<Longrightarrow> y \<in> set xs \<Longrightarrow> (k x = k y) = (k' x = k' y)) \<Longrightarrow>
   keepFirstBy k xs = keepFirstBy k' xs"
proof (induction k xs rule: keepFirstBy.induct)
  case (1 k)
  show ?case by simp
next
  case (2 k x xs)
  have f: "filter (\<lambda>y. k y \<noteq> k x) xs = filter (\<lambda>y. k' y \<noteq> k' x) xs"
    using "2.prems" by (intro filter_cong) auto
  have "keepFirstBy k (filter (\<lambda>y. k y \<noteq> k x) xs) = keepFirstBy k' (filter (\<lambda>y. k y \<noteq> k x) xs)"
    using "2.prems" by (intro "2.IH") auto
  with f show ?case by simp
qed

lemma join_inj:
  "CHR ''-'' \<notin> set t1 \<Longrightarrow> CHR ''-'' \<notin> set t2 \<Longrightarrow>
   t1 @ CHR ''-'' # a1 = t2 @ CHR ''-'' # a2 \<Longrightarrow> t1 = t2 \<and> a1 = a2"
proof (induction t1 arbitrary: t2)
  case Nil
  then show ?case by (cases t2) auto
next
  case (Cons c t1)
  then show ?case by (cases t2) auto
qed

lemma specKey_joinedKey: "specKey a = specKey b \<Longrightarrow> joinedKey a = joinedKey b"
proof -
  have p: "printedPart f = printedPart g" if "normField f = normField g" for f g
    using that by (cases f; cases g) simp_all
  assume "specKey a = specKey b"
  then have n: "normField (title a) = normField (title b)" "normField (artist a) = normField (artist b)"
    by (simp_all add: specKey_def)
  have "printedPart (title a) = printedPart (title b)" by (rule p [OF n(1)])
  moreover have "printedPart (artist a) = printedPart (artist b)" by (rule p [OF n(2)])
  ultimately show "joinedKey a = joinedKey b"
    by (simp only: joinedKey_def)
qed

lemma joinedKey_specKey:
  assumes "present a" "present b" "plainTitle a" "plainTitle b" "joinedKey a = joinedKey b"
  shows "specKey a = specKey b"
proof -
  from assms(1) obtain ta aa where a: "title a = Str ta" "artist a = Str aa"
    by (cases "title a"; cases "artist a") (auto simp: present_def)
  from assms(2) obtain tb ab where b: "title b = Str tb" "artist b = Str ab"
    by (cases "title b"; cases "artist b") (auto simp: present_def)
  from assms(3) a have h1: "CHR ''-'' \<notin> set (normalise ta)" by (simp add: plainTitle_def)
  from assms(4) b have h2: "CHR ''-'' \<notin> set (normalise tb)" by (simp add: plainTitle_def)
  from assms(5) a b have h3: "normalise ta @ CHR ''-'' # normalise aa = normalise tb @ CHR ''-'' # normalise ab"
    by (simp only: joinedKey_def printedPart.simps)
  have "normalise ta = normalise tb \<and> normalise aa = normalise ab"
    by (rule join_inj [OF h1 h2 h3])
  with a b show ?thesis by (simp add: specKey_def)
qed

lemma dedupeKey_fun: "dedupeKey = joinedKey"
  by (rule ext) (rule dedupeKey_joinedKey)

lemma removeDuplicateSongsFast_joinedKey:
  "removeDuplicateSongsFast songs = keepFirstBy joinedKey songs"
  by (simp add: removeDuplicateSongsFast_def filterSeen_keepFirstBy dedupeKey_fun)

lemma removeDuplicateSongsFast_specKey:
  assumes "\<forall>s \<in> set songs. present s \<and> plainTitle s"
  shows "removeDuplicateSongsFast songs = keepFirstBy specKey songs"
proof -
  have "(joinedKey x = joinedKey y) = (specKey x = specKey y)"
    if "x \<in> set songs" "y \<in> set songs" for x y
  proof
    assume "joinedKey x = joinedKey y"
    moreover from that assms have "present x" "present y" "plainTitle x" "plainTitle y" by blast+
    ultimately show "specKey x = specKey y" by (intro joinedKey_specKey)
  next
    assume "specKey x = specKey y"
    then show "joinedKey x = joinedKey y" by (rule specKey_joinedKey)
  qed
  then have "keepFirstBy joinedKey songs = keepFirstBy specKey songs"
    by (rule keepFirstBy_cong)
  then show ?thesis by (simp only: removeDuplicateSongsFast_joinedKey)
qed

text \<open>
  Claim C5, as the specification states it: deduplication keeps exactly the first-seen
  song for each key formed from the lowercased, trimmed, 20-character title and artist.
  The songs "Twenty-One" by "Pilots" and "Twenty" by "One-Pilots" differ in both
  normalised fields, so keeping the first song of each such key keeps both; the code
  keeps only the first.
\<close>

theorem removeDuplicateSongsFast_first_seen_counterexample:
  "asciiSong twentyOne \<and> asciiSong twenty \<and> present twentyOne \<and> present twenty \<and>
   fst (specKey twentyOne) \<noteq> fst (specKey twenty) \<and>
   snd (specKey twentyOne) \<noteq> snd (specKey twenty) \<and>
   keepFirstBy specKey [twentyOne, twenty] = [twentyOne, twenty] \<and>
   removeDuplicateSongsFast [twentyOne, twenty] = [twentyOne]"
  by code_simp

text \<open>
  Claim C5, amended. For every input list of songs with ASCII titles and artists,
  deduplication keeps exactly the first-seen song for each key, where the key is the one
  string that joins with a hyphen the lowercased, trimmed title and artist, each cut to
  its first 20 characters (an absent field prints as "undefined"): the kept songs have
  pairwise different keys, are a subsequence of the input, and the kept song of a key is
  the first input song with it. Two songs that agree on the normalised title and artist
  are duplicates whatever their other fields hold, so entries that differ only beyond
  character 20 of a normalised field collide. Songs that differ in the normalised title or
  artist are kept apart when both fields are present and the normalised titles contain no
  hyphen; on lists of such songs deduplication keeps the first song of each pair of
  normalised title and artist.
\<close>

theorem removeDuplicateSongsFast_first_seen:
  "((\<forall>s \<in> set songs. asciiSong s) \<longrightarrow>
      removeDuplicateSongsFast songs = keepFirstBy joinedKey songs \<and>
      distinct (map joinedKey (removeDuplicateSongsFast songs)) \<and>
      subseq (removeDuplicateSongsFast songs) songs \<and>
      (\<forall>s \<in> set songs.
         find (\<lambda>t. joinedKey t = joinedKey s) (removeDuplicateSongsFast songs) =
         find (\<lambda>t. joinedKey t = joinedKey s) songs)) \<and>
   ((\<forall>s \<in> set songs. asciiSong s \<and> present s \<and> plainTitle s) \<longrightarrow>
      removeDuplicateSongsFast songs = keepFirstBy specKey songs) \<and>
   ((\<forall>s \<in> set (xs @ a # ys @ b # zs). asciiSong s) \<and> specKey a = specKey b \<longrightarrow>
      joinedKey a = joinedKey b \<and>
      removeDuplicateSongsFast (xs @ a # ys @ b # zs) = removeDuplicateSongsFast (xs @ a # ys @ zs)) \<and>
   (asciiSong a \<and> asciiSong b \<and> present a \<and> present b \<and> plainTitle a \<and> plainTitle b \<and>
    specKey a \<noteq> specKey b \<longrightarrow>
      joinedKey a \<noteq> joinedKey b \<and> removeDuplicateSongsFast [a, b] = [a, b])"
proof (intro conjI impI)
  show "removeDuplicateSongsFast songs = keepFirstBy joinedKey songs"
    by (rule removeDuplicateSongsFast_joinedKey)
  have "distinct (map dedupeKey (removeDuplicateSongsFast songs))"
    by (simp add: removeDuplicateSongsFast_def filterSeen_distinct)
  then show "distinct (map joinedKey (removeDuplicateSongsFast songs))"
    by (simp only: dedupeKey_fun)
  show "subseq (removeDuplicateSongsFast songs) songs"
    by (simp add: removeDuplicateSongsFast_def filterSeen_subseq)
  have "\<forall>s \<in> set songs.
      find (\<lambda>t. dedupeKey t = dedupeKey s) (removeDuplicateSongsFast songs) =
      find (\<lambda>t. dedupeKey t = dedupeKey s) songs"
    by (simp add: removeDuplicateSongsFast_def filterSeen_find)
  then show "\<forall>s \<in> set songs.
      find (\<lambda>t. joinedKey t = joinedKey s) (removeDuplicateSongsFast songs) =
      find (\<lambda>t. joinedKey t = joinedKey s) songs"
    by (simp only: dedupeKey_fun)
next
  assume "\<forall>s \<in> set songs. asciiSong s \<and> present s \<and> plainTitle s"
  then have "\<forall>s \<in> set songs. present s \<and> plainTitle s" by blast
  then show "removeDuplicateSongsFast songs = keepFirstBy specKey songs"
    by (rule removeDuplicateSongsFast_specKey)
next
  assume "(\<forall>s \<in> set (xs @ a # ys @ b # zs). asciiSong s) \<and> specKey a = specKey b"
  then have "specKey a = specKey b" by blast
  then show k: "joinedKey a = joinedKey b" by (rule specKey_joinedKey)
  then have "dedupeKey a = dedupeKey b" by (simp only: dedupeKey_joinedKey)
  then show "removeDuplicateSongsFast (xs @ a # ys @ b # zs) =
             removeDuplicateSongsFast (xs @ a # ys @ zs)"
    unfolding removeDuplicateSongsFast_def by (rule filterSeen_drop_later)
next
  assume h: "asciiSong a \<and> asciiSong b \<and> present a \<and> present b \<and> plainTitle a \<and> plainTitle b \<and>
    specKey a \<noteq> specKey b"
  show n: "joinedKey a \<noteq> joinedKey b"
  proof
    assume "joinedKey a = joinedKey b"
    with h have "specKey a = specKey b" by (intro joinedKey_specKey) simp_all
    with h show False by simp
  qed
  then have "dedupeKey a \<noteq> dedupeKey b" by (simp add: dedupeKey_joinedKey)
  then show "removeDuplicateSongsFast [a, b] = [a, b]"
    by (auto simp: removeDuplicateSongsFast_def)
qed

theorem removeDuplicateSongsFast_first_seen_witness:
  "removeDuplicateSongsFast [helloAdele, helloLionel, longTitleExtended, longTitleTruncated] =
     [helloAdele, helloLionel, longTitleExtended] \<and>
   removeDuplicateSongsFast [helloAdele, helloLionel] = [helloAdele, helloLionel] \<and>
   removeDuplicateSongsFast ([helloAdele] @ longTitleExtended # [] @ longTitleTruncated # []) =
     removeDuplicateSongsFast ([helloAdele] @ longTitleExtended # [] @ [])"
proof -
  have ok: "\<forall>s \<in> set [helloAdele, helloLionel, longTitleExtended, longTitleTruncated].
              asciiSong s \<and> present s \<and> plainTitle s"
    by code_simp
  have first: "keepFirstBy specKey [helloAdele, helloLionel, longTitleExtended, longTitleTruncated] =
               [helloAdele, helloLionel, longTitleExtended]"
    by code_simp
  have same: "(\<forall>s \<in> set ([helloAdele] @ longTitleExtended # [] @ longTitleTruncated # []). asciiSong s) \<and>
              specKey longTitleExtended = specKey longTitleTruncated"
    by code_simp
  have apart: "asciiSong helloAdele \<and> asciiSong helloLionel \<and> present helloAdele \<and>
               present helloLionel \<and> plainTitle helloAdele \<and> plainTitle helloLionel \<and>
               specKey helloAdele \<noteq> specKey helloLionel"
    by code_simp
  note t1 = removeDuplicateSongsFast_first_seen
    [of "[helloAdele, helloLionel, longTitleExtended, longTitleTruncated]"
        "[helloAdele]" longTitleExtended "[]" longTitleTruncated "[]"]
  note t2 = removeDuplicateSongsFast_first_seen
    [of "[helloAdele, helloLionel]" "[]" helloAdele "[]" helloLionel "[]"]
  from t1 ok have
    "removeDuplicateSongsFast [helloAdele, helloLionel, longTitleExtended, longTitleTruncated] =
     keepFirstBy specKey [helloAdele, helloLionel, longTitleExtended, longTitleTruncated]"
    by blast
  with first have r1:
    "removeDuplicateSongsFast [helloAdele, helloLionel, longTitleExtended, longTitleTruncated] =
     [helloAdele, helloLionel, longTitleExtended]"
    by (simp only:)
  from t2 apart have r2: "removeDuplicateSongsFast [helloAdele, helloLionel] = [helloAdele, helloLionel]"
    by blast
  from t1 same have r3:
    "removeDuplicateSongsFast ([helloAdele] @ longTitleExtended # [] @ longTitleTruncated # []) =
     removeDuplicateSongsFast ([helloAdele] @ longTitleExtended # [] @ [])"
    by blast
  from r1 r2 r3 show ?thesis by blast
qed

text \<open>
  Claim C7. Deduplication is idempotent: applying \<open>removeDuplicateSongsFast\<close> to its own
  output returns that output unchanged, for every list of songs.
\<close>

theorem removeDuplicateSongsFast_idempotent:
  "removeDuplicateSongsFast (removeDuplicateSongsFast songs) = removeDuplicateSongsFast songs"
  unfolding removeDuplicateSongsFast_def
  by (rule filterSeen_id) (simp_all add: filterSeen_distinct)

section \<open>Properties of basic scoring\<close>







section \<open>Properties of the fallback analyzer\<close>

lemma firstArtist_find:
  "firstArtist rs prompt =
   map_option trim (find (\<lambda>m. 3 < length m) (List.map_filter (\<lambda>r. matchGroup1 r prompt) rs))"
  by (induction rs) (auto simp: List.map_filter_simps split: option.splits)

text \<open>
  Claim C8. The fallback artist extractor applies its three patterns in order ("by X",
  "from X", "Word Word songs"), takes the first match of each, and returns the first of
  these captures that is longer than 3 characters, trimmed; on "love songs by Adele",
  "songs from The Weeknd" and "Bruce Springsteen songs" it returns "Adele", "The Weeknd"
  and "Bruce Springsteen".
\<close>

theorem extractArtistFromPrompt_patterns:
  "extractArtistFromPrompt prompt =
     map_option trim (find (\<lambda>m. 3 < length m)
        (List.map_filter (\<lambda>r. matchGroup1 r prompt) [byPattern, fromPattern, songsPattern])) \<and>
   extractArtistFromPrompt ''love songs by Adele'' = Some ''Adele'' \<and>
   extractArtistFromPrompt ''songs from The Weeknd'' = Some ''The Weeknd'' \<and>
   extractArtistFromPrompt ''Bruce Springsteen songs'' = Some ''Bruce Springsteen''"
proof (intro conjI)
  show "extractArtistFromPrompt prompt =
     map_option trim (find (\<lambda>m. 3 < length m)
        (List.map_filter (\<lambda>r. matchGroup1 r prompt) [byPattern, fromPattern, songsPattern]))"
    by (simp only: extractArtistFromPrompt_def artistPatterns_def firstArtist_find)
  show "extractArtistFromPrompt ''love songs by Adele'' = Some ''Adele''"
    by code_simp
  show "extractArtistFromPrompt ''songs from The Weeknd'' = Some ''The Weeknd''"
    by code_simp
  show "extractArtistFromPrompt ''Bruce Springsteen songs'' = Some ''Bruce Springsteen''"
    by code_simp
qed

lemma parseInt_nonneg: "0 \<le> parseInt ds"
  by (simp add: parseInt_def)

lemma digit_is_word: "isDigit c \<Longrightarrow> isWordChar c"
  by (simp add: isWordChar_def)

lemma number_no_match_at_nondigit:
  "\<not> isDigit c \<Longrightarrow> matchItems (items numberPattern) prev (c # cs) = None"
  by (simp add: numberPattern_def)

lemma number_no_match_at_end:
  "matchItems (items numberPattern) prev [] = None"
  by (simp add: numberPattern_def)

lemma number_skip_nondigits:
  "\<forall>c \<in> set pre. \<not> isDigit c \<Longrightarrow> s \<noteq> [] \<Longrightarrow>
   searchFrom (items numberPattern) prev (pre @ s) =
   searchFrom (items numberPattern) (if pre = [] then prev else Some (last pre)) s"
proof (induction pre arbitrary: prev)
  case Nil
  show ?case by simp
next
  case (Cons c pre)
  then have "searchFrom (items numberPattern) prev ((c # pre) @ s) =
             searchFrom (items numberPattern) (Some c) (pre @ s)"
    by (simp add: number_no_match_at_nondigit)
  also have "\<dots> = searchFrom (items numberPattern) (if pre = [] then Some c else Some (last pre)) s"
    using Cons by simp
  finally show ?case by simp
qed

lemma number_match_run:
  assumes ds: "ds \<noteq> []" "\<forall>c \<in> set ds. isDigit c"
    and post: "\<not> isWordOpt (headOpt post)"
    and prev: "\<not> isWordOpt prev"
  shows "matchItems (items numberPattern) prev (ds @ post) = Some [0, length ds, 0]"
proof -
  obtain k where k: "length ds = Suc k" using ds(1) by (cases ds) auto
  have nd: "takeWhile isDigit post = []"
    using post digit_is_word by (cases post) (auto simp: headOpt_def isWordOpt_def)
  have tw: "takeWhile isDigit (ds @ post) = ds"
    using ds(2) nd by (simp add: takeWhile_append2)
  have lastd: "isWordChar ((ds @ post) ! k)"
    using ds(2) k digit_is_word by (simp add: nth_append)
  have dr: "drop (Suc k) (ds @ post) = post" using k by simp
  have hd: "isWordOpt (headOpt (ds @ post))"
    using ds digit_is_word by (cases ds) (auto simp: headOpt_def isWordOpt_def)
  have inner: "matchItems [Many1 isDigit, WordBoundary] prev' (ds @ post) = Some [length ds, 0]" for prev'
    using post lastd dr by (simp add: tw k isWordOpt_def)
  show ?thesis
    using prev hd by (simp add: numberPattern_def inner del: matchItems.simps(3))
qed

lemma extractNumber_first_run:
  assumes pre: "\<forall>c \<in> set pre. \<not> isDigit c" "pre = [] \<or> \<not> isWordChar (last pre)"
    and ds: "ds \<noteq> []" "\<forall>c \<in> set ds. isDigit c"
    and post: "post = [] \<or> \<not> isWordChar (hd post)"
  shows "extractNumberFromPrompt (pre @ ds @ post) = Some (parseInt ds)"
proof -
  let ?prev = "if pre = [] then None else Some (last pre)"
  have p: "\<not> isWordOpt ?prev" using pre(2) by (auto simp: isWordOpt_def)
  have q: "\<not> isWordOpt (headOpt post)"
    using post by (cases post) (auto simp: isWordOpt_def headOpt_def)
  have m: "matchItems (items numberPattern) ?prev (ds @ post) = Some [0, length ds, 0]"
    by (rule number_match_run [OF ds q p])
  obtain d ds' where d: "ds = d # ds'" using ds(1) by (cases ds) auto
  have "searchFrom (items numberPattern) None (pre @ ds @ post) =
        searchFrom (items numberPattern) ?prev (ds @ post)"
    using number_skip_nondigits [OF pre(1), of "ds @ post" None] ds(1) by simp
  also have "\<dots> = Some (ds @ post, [0, length ds, 0])"
    using m by (simp add: d)
  finally show ?thesis
    by (simp add: extractNumberFromPrompt_def matchGroup1_def numberPattern_def)
qed


text \<open>
  Claim C3, as the specification states it: the fallback takes the integer of the prompt
  as the target count, and 10 only when there is none. On the prompt "0 songs" the
  integer is 0 and the target count is 10.
\<close>

theorem analysisFallback_targetCount_zero_counterexample:
  "extractNumberFromPrompt ''0 songs'' = Some 0 \<and>
   targetCount (constraints (analyzeUserPromptFast (Inl UpstreamError) ''0 songs'')) = Some 10 \<and>
   targetCount (constraints (analyzeUserPromptFast (Inl UpstreamError) ''0 songs'')) \<noteq> Some (min 0 15)"
  by code_simp

text \<open>
  Claim C3, amended. When the generative call fails, the analyzer returns its fallback,
  whose target count is the first integer of the prompt (a run of digits between word
  boundaries; in particular a run of digits that no digit precedes and that non-word
  characters or the ends of the prompt delimit), capped at 15, with the default 10 when
  the prompt has no such integer or the integer is 0; it always lies between 1 and 15.
  On "Beatles songs from the 60s, 5 songs" it is 5.
\<close>

theorem analysisFallback_targetCount:
  "analyzeUserPromptFast (Inl err) prompt = analysisFallback prompt \<and>
   targetCount (constraints (analysisFallback prompt)) =
     Some (min (case extractNumberFromPrompt prompt of
                  None \<Rightarrow> 10 | Some n \<Rightarrow> if n = 0 then 10 else n) 15) \<and>
   (\<exists>t. targetCount (constraints (analysisFallback prompt)) = Some t \<and> 1 \<le> t \<and> t \<le> 15) \<and>
   ((\<forall>c \<in> set pre. \<not> isDigit c) \<and> (pre = [] \<or> \<not> isWordChar (last pre)) \<and>
    ds \<noteq> [] \<and> (\<forall>c \<in> set ds. isDigit c) \<and> (post = [] \<or> \<not> isWordChar (hd post)) \<longrightarrow>
    extractNumberFromPrompt (pre @ ds @ post) = Some (parseInt ds)) \<and>
   extractNumberFromPrompt ''Beatles songs from the 60s, 5 songs'' = Some 5 \<and>
   targetCount (constraints (analyzeUserPromptFast (Inl err)
      ''Beatles songs from the 60s, 5 songs'')) = Some 5"
proof (intro conjI impI)
  show a: "analyzeUserPromptFast (Inl err) prompt = analysisFallback prompt"
    by (simp add: analyzeUserPromptFast_def)
  show t: "targetCount (constraints (analysisFallback prompt)) =
     Some (min (case extractNumberFromPrompt prompt of
                  None \<Rightarrow> 10 | Some n \<Rightarrow> if n = 0 then 10 else n) 15)"
    by (simp add: analysisFallback_def Let_def)
  have "0 \<le> n" if "extractNumberFromPrompt prompt = Some n" for n
    using that parseInt_nonneg by (auto simp: extractNumberFromPrompt_def)
  then show "\<exists>t. targetCount (constraints (analysisFallback prompt)) = Some t \<and> 1 \<le> t \<and> t \<le> 15"
    unfolding t by (cases "extractNumberFromPrompt prompt") force+
  show n: "extractNumberFromPrompt ''Beatles songs from the 60s, 5 songs'' = Some 5"
    by code_simp
  show "targetCount (constraints (analyzeUserPromptFast (Inl err)
      ''Beatles songs from the 60s, 5 songs'')) = Some 5"
    by (simp only: analyzeUserPromptFast_def sum.case) (simp add: analysisFallback_def n)
next
  assume "(\<forall>c \<in> set pre. \<not> isDigit c) \<and> (pre = [] \<or> \<not> isWordChar (last pre)) \<and>
    ds \<noteq> [] \<and> (\<forall>c \<in> set ds. isDigit c) \<and> (post = [] \<or> \<not> isWordChar (hd post))"
  then show "extractNumberFromPrompt (pre @ ds @ post) = Some (parseInt ds)"
    by (intro extractNumber_first_run) simp_all
qed

theorem analysisFallback_targetCount_witness:
  "extractNumberFromPrompt ''top 25 hits'' = Some 25 \<and>
   targetCount (constraints (analyzeUserPromptFast (Inl TimeoutError) ''top 25 hits'')) = Some 15"
proof -
  note t = analysisFallback_targetCount
    [of TimeoutError "''top 25 hits''" "''top ''" "''25''" "'' hits''"]
  have h: "(\<forall>c \<in> set ''top ''. \<not> isDigit c) \<and> (''top '' = [] \<or> \<not> isWordChar (last ''top '')) \<and>
    ''25'' \<noteq> [] \<and> (\<forall>c \<in> set ''25''. isDigit c) \<and> ('' hits'' = [] \<or> \<not> isWordChar (hd '' hits''))"
    by (simp add: isDigit_def isWordChar_def isLetter_def upperChars_def lowerChars_def)
  have p: "parseInt ''25'' = 25" by code_simp
  from t h p have n: "extractNumberFromPrompt ''top 25 hits'' = Some 25" by simp
  with t show ?thesis by simp
qed

section \<open>Properties of fusion and of the entry point\<close>

lemma removeDuplicateSongsFast_Cons: "removeDuplicateSongsFast (s # ss) \<noteq> []"
  by (simp add: removeDuplicateSongsFast_def)

lemma combineAndVerify_verification_fails:
  assumes "removeDuplicateSongsFast (webResults @ aiResults) \<noteq> []"
    and "\<forall>songs. \<exists>err. verification env prompt songs = Inl err"
  shows "combineAndVerifyAlignmentFast env webResults aiResults prompt emb cs = Inl ReferenceError"
proof -
  obtain err where "verification env prompt (slice0 (case emb of
       Some v \<Rightarrow> if \<not> skipSemanticSimilarity \<and>
                    length (topCandidates prompt (removeDuplicateSongsFast (webResults @ aiResults))) > 0
                 then semanticRank env (topCandidates prompt (removeDuplicateSongsFast (webResults @ aiResults))) v
                 else topCandidates prompt (removeDuplicateSongsFast (webResults @ aiResults))
     | None \<Rightarrow> topCandidates prompt (removeDuplicateSongsFast (webResults @ aiResults))) 10) = Inl err"
    using assms(2) by blast
  moreover have "''allSongs'' \<notin> set catchBindings"
    by (simp add: catchBindings_def moduleBindings_def)
  ultimately show ?thesis
    using assms(1) by (simp add: combineAndVerifyAlignmentFast_def Let_def)
qed

text \<open>
  Claim C2 says that when the verification call fails the fusion engine returns the merged
  and deduplicated list, filtered to songs with title and artist and cut to the target
  count, and never throws. With web result \<open>heyJude\<close>, generated result \<open>letItBe\<close> and a
  verification call that times out, that list is \<open>[heyJude, letItBe]\<close>, and
  \<open>combineAndVerifyAlignmentFast\<close> raises a ReferenceError instead.
\<close>

theorem combineAndVerifyAlignmentFast_fallback_raises:
  "combineAndVerifyAlignmentFast verifierDown [heyJude] [letItBe] ''beatles classics'' None
     noConstraints = Inl ReferenceError \<and>
   specFallback [heyJude] [letItBe] noConstraints = [heyJude, letItBe]"
proof
  have "\<forall>songs. \<exists>err. verification verifierDown ''beatles classics'' songs = Inl err"
    by (simp add: verifierDown_def)
  then show "combineAndVerifyAlignmentFast verifierDown [heyJude] [letItBe] ''beatles classics'' None
     noConstraints = Inl ReferenceError"
    by (intro combineAndVerify_verification_fails) (simp_all add: removeDuplicateSongsFast_Cons)
  show "specFallback [heyJude] [letItBe] noConstraints = [heyJude, letItBe]"
    by code_simp
qed

text \<open>
  Claim C1, as the specification states it: a final aligned list shorter than
  \<open>min(minCount, 3)\<close> is reported to the caller as a condition of its own, distinct from an
  upstream failure and from the bare empty array. With two aligned songs and
  \<open>minCount = 3\<close> the caller receives the empty array, the same value it receives when the
  verification call times out.
\<close>

theorem generateClassicRecommendations_insufficient_counterexample:
  "alignedSongs twoAligned ''beatles'' =
     Inr [heyJude\<lparr>alignment_score := Some 8\<rparr>, letItBe\<lparr>alignment_score := Some 8\<rparr>] \<and>
   minCount (constraints (analysisResult twoAligned ''beatles'')) = Some 3 \<and>
   generateClassicRecommendations twoAligned ''beatles'' ''token'' = [] \<and>
   workflow upstreamDown ''beatles'' ''token'' = Inl ReferenceError \<and>
   generateClassicRecommendations upstreamDown ''beatles'' ''token'' =
     generateClassicRecommendations twoAligned ''beatles'' ''token''"
  by code_simp

text \<open>
  Claim C1, amended. When the final aligned list has fewer than \<open>min(minCount, 3)\<close>
  entries, the entry point raises its "not enough quality results" error inside its own
  \<open>try\<close> block, before any catalog search, and its \<open>catch\<close> block turns it, like every
  other error, into the empty array: the caller receives \<open>[]\<close>.
\<close>

theorem generateClassicRecommendations_insufficient:
  "(alignedSongs e prompt = Inr aligned \<and>
    minCount (constraints (analysisResult e prompt)) = Some m \<and>
    int (length aligned) < min m 3 \<longrightarrow>
    workflow e prompt token = Inl (NotEnoughQualityResults (length aligned) (min m 3)) \<and>
    generateClassicRecommendations e prompt token = []) \<and>
   (workflow e prompt token = Inl err \<longrightarrow> generateClassicRecommendations e prompt token = [])"
proof (intro conjI impI)
  assume h: "alignedSongs e prompt = Inr aligned \<and>
    minCount (constraints (analysisResult e prompt)) = Some m \<and>
    int (length aligned) < min m 3"
  then show w: "workflow e prompt token = Inl (NotEnoughQualityResults (length aligned) (min m 3))"
    by (simp add: workflow_def notEnough_def mathMin_def)
  then show "generateClassicRecommendations e prompt token = []"
    by (simp add: generateClassicRecommendations_def)
next
  assume "workflow e prompt token = Inl err"
  then show "generateClassicRecommendations e prompt token = []"
    by (simp add: generateClassicRecommendations_def)
qed

theorem generateClassicRecommendations_insufficient_witness:
  "workflow twoAligned ''beatles'' ''token'' = Inl (NotEnoughQualityResults 2 3) \<and>
   generateClassicRecommendations twoAligned ''beatles'' ''token'' = []"
proof -
  have a: "alignedSongs twoAligned ''beatles'' =
     Inr [heyJude\<lparr>alignment_score := Some 8\<rparr>, letItBe\<lparr>alignment_score := Some 8\<rparr>]"
    by code_simp
  have m: "minCount (constraints (analysisResult twoAligned ''beatles'')) = Some 3"
    by code_simp
  from generateClassicRecommendations_insufficient
    [of twoAligned "''beatles''" "[heyJude\<lparr>alignment_score := Some 8\<rparr>, letItBe\<lparr>alignment_score := Some 8\<rparr>]"
        3 "''token''"] a m
  show ?thesis by simp
qed

lemma includesStr_empty: "includesStr s []"
  by (cases s) (simp_all add: startsWith_def)

lemma keepVerified_no_artist:
  assumes "truthy (specificArtist cs)"
    and "artist s = Undefined \<or> artist s = Null \<or> artist s = Str []"
    and "alignment_score s = Some sc" and "6 \<le> sc"
  shows "keepVerified cs s"
  using assms by (auto simp: keepVerified_def Let_def includesStr_empty toLowerCase_def)

lemma slice0_Cons: "0 < n \<Longrightarrow> slice0 (x # xs) n = x # take (nat n - 1) xs"
  by (cases "nat n") (auto simp: slice0_def)

text \<open>
  Claim C9. In the filter applied to the verifier's answer, when a specific artist is
  requested and a verified song has an absent, null or empty artist, the artist check
  does not drop it: with an alignment score of at least 6 it passes the filter, and as
  first element of the verifier's answer it is in the final aligned list.
\<close>

theorem keepVerified_missing_artist:
  "(truthy (specificArtist cs) \<and>
    (artist s = Undefined \<or> artist s = Null \<or> artist s = Str []) \<and>
    alignment_score s = Some sc \<and> 6 \<le> sc \<longrightarrow> keepVerified cs s) \<and>
   (truthy (specificArtist cs) \<and>
    (artist s = Undefined \<or> artist s = Null \<or> artist s = Str []) \<and>
    alignment_score s = Some sc \<and> 6 \<le> sc \<and>
    removeDuplicateSongsFast (webResults @ aiResults) \<noteq> [] \<and>
    (\<forall>songs. verification env prompt songs = Inr (Array (s # rest))) \<and>
    0 < targetCountOr cs 12 \<longrightarrow>
    (\<exists>out. combineAndVerifyAlignmentFast env webResults aiResults prompt emb cs = Inr (s # out)))"
proof (intro conjI impI)
  assume "truthy (specificArtist cs) \<and>
    (artist s = Undefined \<or> artist s = Null \<or> artist s = Str []) \<and>
    alignment_score s = Some sc \<and> 6 \<le> sc"
  then show "keepVerified cs s" by (intro keepVerified_no_artist [of cs s sc]) simp_all
next
  assume h: "truthy (specificArtist cs) \<and>
    (artist s = Undefined \<or> artist s = Null \<or> artist s = Str []) \<and>
    alignment_score s = Some sc \<and> 6 \<le> sc \<and>
    removeDuplicateSongsFast (webResults @ aiResults) \<noteq> [] \<and>
    (\<forall>songs. verification env prompt songs = Inr (Array (s # rest))) \<and>
    0 < targetCountOr cs 12"
  then have k: "keepVerified cs s" by (intro keepVerified_no_artist [of cs s sc]) simp_all
  from h have v: "\<And>songs. verification env prompt songs = Inr (Array (s # rest))" by simp
  from h have n: "0 < targetCountOr cs 12" by simp
  from h have ne: "removeDuplicateSongsFast (webResults @ aiResults) \<noteq> []" by simp
  show "\<exists>out. combineAndVerifyAlignmentFast env webResults aiResults prompt emb cs = Inr (s # out)"
    using ne k by (simp add: combineAndVerifyAlignmentFast_def Let_def v slice0_Cons [OF n])
qed

theorem keepVerified_missing_artist_witness:
  "keepVerified adeleOnly noArtistSong \<and>
   combineAndVerifyAlignmentFast (verifierAnswers [noArtistSong]) [heyJude] [] ''songs by Adele''
     None adeleOnly = Inr [noArtistSong]"
proof -
  have c: "truthy (specificArtist adeleOnly) \<and>
    (artist noArtistSong = Undefined \<or> artist noArtistSong = Null \<or> artist noArtistSong = Str []) \<and>
    alignment_score noArtistSong = Some 7 \<and> (6::rat) \<le> 7 \<and>
    removeDuplicateSongsFast ([heyJude] @ []) \<noteq> [] \<and>
    (\<forall>songs. verification (verifierAnswers [noArtistSong]) ''songs by Adele'' songs =
       Inr (Array (noArtistSong # []))) \<and>
    0 < targetCountOr adeleOnly 12"
    by (simp add: adeleOnly_def noArtistSong_def mkSong_def verifierAnswers_def
        removeDuplicateSongsFast_def targetCountOr_def)
  have r: "combineAndVerifyAlignmentFast (verifierAnswers [noArtistSong]) [heyJude] []
     ''songs by Adele'' None adeleOnly = Inr [noArtistSong]"
    by code_simp
  from keepVerified_missing_artist
    [of adeleOnly noArtistSong 7 "[heyJude]" "[]" "verifierAnswers [noArtistSong]"
        "''songs by Adele''" "[]" None] c r
  show ?thesis by simp
qed

section \<open>Properties of the catalog resolver\<close>

lemma combinedScore_Str:
  "title s = Str ttl \<Longrightarrow> artist s = Str art \<Longrightarrow> \<exists>sc. combinedScore t s = Inr sc"
  by (simp add: combinedScore_def Let_def split: list.splits)

lemma firstDecent_find:
  assumes "title s = Str ttl" "artist s = Str art"
  shows "firstDecent ts s = Inr (find (\<lambda>t. acceptable t s) ts)"
proof (induction ts)
  case Nil
  show ?case by simp
next
  case (Cons t ts)
  obtain sc where "combinedScore t s = Inr sc"
    using combinedScore_Str [OF assms] by blast
  with Cons show ?case by (simp add: acceptable_def)
qed

lemma findBest_Cons:
  assumes "title s = Str ttl" "artist s = Str art"
  shows "findBestTrackMatchFast (t # ts) s =
         Inr (Some (case find (\<lambda>x. acceptable x s) (t # ts) of Some x \<Rightarrow> x | None \<Rightarrow> t))"
  by (simp only: findBestTrackMatchFast_def firstDecent_find [OF assms] list.case)
     (simp split: option.splits)

lemma findBest_Nil: "findBestTrackMatchFast [] s = Inr None"
  by (simp add: findBestTrackMatchFast_def)

lemma combinedScore_formula:
  assumes "title s = Str ttl" "artist s = Str art" "artists t \<noteq> []"
  shows "combinedScore t s =
     Inr (Some (calculateStringSimilarityFast (toLowerCase (name t)) (toLowerCase ttl) * (6 / 10) +
                Max ((\<lambda>n. calculateStringSimilarityFast (toLowerCase n) (toLowerCase art)) ` set (artists t))
                  * (4 / 10)))"
proof -
  obtain a as where a: "artists t = a # as" using assms(3) by (cases "artists t") auto
  let ?f = "\<lambda>n. calculateStringSimilarityFast (toLowerCase n) (toLowerCase art)"
  have "Max (?f ` set (a # as)) = Max (set (?f a # map ?f as))" by simp
  also have "\<dots> = fold max (map ?f as) (?f a)" by (rule Max.set_eq_fold)
  finally show ?thesis using assms(1,2) a by (simp add: combinedScore_def Let_def)
qed

text \<open>
  Claim C4, as the specification states it: the first candidate is accepted
  unconditionally only once every formulation has been tried and none produced a
  candidate scoring above 0.5. Here the strict query returns one candidate scoring 0 and
  the loose query would return a candidate scoring 1; the resolver accepts the strict
  query's candidate.
\<close>

theorem resolveSong_strategies_counterexample:
  "combinedScore wrongTrack helloAdele = Inr (Some 0) \<and>
   combinedScore rightTrack helloAdele = Inr (Some 1) \<and>
   strictWrongLooseRight (strictQuery helloAdele) ''token'' = Inr [wrongTrack] \<and>
   strictWrongLooseRight (looseQuery helloAdele) ''token'' = Inr [rightTrack] \<and>
   resolveSong strictWrongLooseRight ''token'' helloAdele =
     Some (track.extend wrongTrack (resolvedTrack.fields helloAdele (strictQuery helloAdele)))"
  by code_simp

text \<open>
  Claim C4, amended. For each song whose title and artist are present, the resolver tries
  the strict field-scoped query and then the loose free-text query, and stops at the
  first query that returns any candidate: among that query's candidates it accepts the
  first whose combined score 0.6 * title similarity + 0.4 * maximal artist similarity
  exceeds 0.5, and otherwise that query's first candidate. When both queries return no
  candidate the song resolves to nothing, without an error.
\<close>

theorem resolveSong_strategies:
  "(title s = Str ttl \<and> artist s = Str art \<and> artists t \<noteq> [] \<longrightarrow>
      combinedScore t s =
        Inr (Some (calculateStringSimilarityFast (toLowerCase (name t)) (toLowerCase ttl) * (6 / 10) +
          Max ((\<lambda>n. calculateStringSimilarityFast (toLowerCase n) (toLowerCase art)) ` set (artists t))
            * (4 / 10)))) \<and>
   (title s = Str ttl \<and> artist s = Str art \<and> fetch (strictQuery s) token = Inr (c # cands) \<longrightarrow>
      resolveSong fetch token s =
        Some (track.extend
                (case find (\<lambda>x. acceptable x s) (c # cands) of Some x \<Rightarrow> x | None \<Rightarrow> c)
                (resolvedTrack.fields s (strictQuery s)))) \<and>
   (title s = Str ttl \<and> artist s = Str art \<and> fetch (strictQuery s) token = Inr [] \<and>
    fetch (looseQuery s) token = Inr (c # cands) \<longrightarrow>
      resolveSong fetch token s =
        Some (track.extend
                (case find (\<lambda>x. acceptable x s) (c # cands) of Some x \<Rightarrow> x | None \<Rightarrow> c)
                (resolvedTrack.fields s (looseQuery s)))) \<and>
   (fetch (strictQuery s) token = Inr [] \<and> fetch (looseQuery s) token = Inr [] \<longrightarrow>
      resolveSong fetch token s = None)"
proof (intro conjI impI)
  assume "title s = Str ttl \<and> artist s = Str art \<and> artists t \<noteq> []"
  then show "combinedScore t s =
        Inr (Some (calculateStringSimilarityFast (toLowerCase (name t)) (toLowerCase ttl) * (6 / 10) +
          Max ((\<lambda>n. calculateStringSimilarityFast (toLowerCase n) (toLowerCase art)) ` set (artists t))
            * (4 / 10)))"
    by (intro combinedScore_formula) simp_all
next
  assume h: "title s = Str ttl \<and> artist s = Str art \<and> fetch (strictQuery s) token = Inr (c # cands)"
  then have f: "findBestTrackMatchFast (c # cands) s =
         Inr (Some (case find (\<lambda>x. acceptable x s) (c # cands) of Some x \<Rightarrow> x | None \<Rightarrow> c))"
    by (intro findBest_Cons [of s ttl art]) simp_all
  from h show "resolveSong fetch token s =
        Some (track.extend
                (case find (\<lambda>x. acceptable x s) (c # cands) of Some x \<Rightarrow> x | None \<Rightarrow> c)
                (resolvedTrack.fields s (strictQuery s)))"
    by (simp only: resolveSong_def searchStrategies_def tryStrategies.simps f sum.case option.case)
next
  assume h: "title s = Str ttl \<and> artist s = Str art \<and> fetch (strictQuery s) token = Inr [] \<and>
    fetch (looseQuery s) token = Inr (c # cands)"
  then have f: "findBestTrackMatchFast (c # cands) s =
         Inr (Some (case find (\<lambda>x. acceptable x s) (c # cands) of Some x \<Rightarrow> x | None \<Rightarrow> c))"
    by (intro findBest_Cons [of s ttl art]) simp_all
  from h show "resolveSong fetch token s =
        Some (track.extend
                (case find (\<lambda>x. acceptable x s) (c # cands) of Some x \<Rightarrow> x | None \<Rightarrow> c)
                (resolvedTrack.fields s (looseQuery s)))"
    by (simp only: resolveSong_def searchStrategies_def tryStrategies.simps f findBest_Nil
        sum.case option.case)
next
  assume "fetch (strictQuery s) token = Inr [] \<and> fetch (looseQuery s) token = Inr []"
  then show "resolveSong fetch token s = None"
    by (simp add: resolveSong_def searchStrategies_def findBest_Nil)
qed

theorem resolveSong_strategies_witness:
  "resolveSong strictWrongLooseRight ''token'' helloAdele =
     Some (track.extend wrongTrack (resolvedTrack.fields helloAdele (strictQuery helloAdele))) \<and>
   resolveSong strictEmptyLooseRight ''token'' helloAdele =
     Some (track.extend rightTrack (resolvedTrack.fields helloAdele (looseQuery helloAdele))) \<and>
   resolveSong emptyCatalog ''token'' helloAdele = None \<and>
   combinedScore rightTrack helloAdele = Inr (Some 1)"
proof -
  have s: "title helloAdele = Str ''Hello'' \<and> artist helloAdele = Str ''Adele''"
    by (simp add: helloAdele_def mkSong_def)
  have a: "artists rightTrack \<noteq> []" by (simp add: rightTrack_def)
  have f1: "strictWrongLooseRight (strictQuery helloAdele) ''token'' = Inr (wrongTrack # [])"
    by (simp add: strictWrongLooseRight_def)
  have f2: "strictEmptyLooseRight (strictQuery helloAdele) ''token'' = Inr [] \<and>
            strictEmptyLooseRight (looseQuery helloAdele) ''token'' = Inr (wrongTrack # [rightTrack])"
    by code_simp
  have f3: "emptyCatalog (strictQuery helloAdele) ''token'' = Inr [] \<and>
            emptyCatalog (looseQuery helloAdele) ''token'' = Inr []"
    by (simp add: emptyCatalog_def)
  have p1: "(case find (\<lambda>x. acceptable x helloAdele) (wrongTrack # []) of
               Some x \<Rightarrow> x | None \<Rightarrow> wrongTrack) = wrongTrack"
    by code_simp
  have p2: "(case find (\<lambda>x. acceptable x helloAdele) (wrongTrack # [rightTrack]) of
               Some x \<Rightarrow> x | None \<Rightarrow> wrongTrack) = rightTrack"
    by code_simp
  have m: "calculateStringSimilarityFast (toLowerCase (name rightTrack)) (toLowerCase ''Hello'') * (6 / 10) +
           Max ((\<lambda>n. calculateStringSimilarityFast (toLowerCase n) (toLowerCase ''Adele'')) `
                  set (artists rightTrack)) * (4 / 10) = 1"
    by (simp add: rightTrack_def calculateStringSimilarityFast_def)
  note t1 = resolveSong_strategies
    [of helloAdele "''Hello''" "''Adele''" rightTrack strictWrongLooseRight "''token''" wrongTrack "[]"]
  note t2 = resolveSong_strategies
    [of helloAdele "''Hello''" "''Adele''" rightTrack strictEmptyLooseRight "''token''" wrongTrack
        "[rightTrack]"]
  note t3 = resolveSong_strategies
    [of helloAdele "''Hello''" "''Adele''" rightTrack emptyCatalog "''token''" wrongTrack "[]"]
  from t1 s f1 p1 have r1: "resolveSong strictWrongLooseRight ''token'' helloAdele =
     Some (track.extend wrongTrack (resolvedTrack.fields helloAdele (strictQuery helloAdele)))"
    by simp
  from t2 s f2 p2 have r2: "resolveSong strictEmptyLooseRight ''token'' helloAdele =
     Some (track.extend rightTrack (resolvedTrack.fields helloAdele (looseQuery helloAdele)))"
    by simp
  from t3 f3 have r3: "resolveSong emptyCatalog ''token'' helloAdele = None"
    by simp
  from t1 s a m have r4: "combinedScore rightTrack helloAdele = Inr (Some 1)"
    by simp
  from r1 r2 r3 r4 show ?thesis by simp
qed

section \<open>Properties of cosine similarity\<close>

lemma foldl_squares: "foldl (\<lambda>sum a. sum + a * a) acc v = acc + sum_list (map (\<lambda>a. a * a) v)"
  for acc :: real
  by (induction v arbitrary: acc) simp_all

lemma magnitude_zero_iff: "magnitude v = 0 \<longleftrightarrow> (\<forall>x \<in> set v. x = 0)"
proof -
  have "magnitude v = 0 \<longleftrightarrow> sum_list (map (\<lambda>a. a * a) v) = 0"
    by (simp add: magnitude_def foldl_squares)
  also have "\<dots> \<longleftrightarrow> (\<forall>x \<in> set (map (\<lambda>a. a * a) v). x = 0)"
    by (rule sum_list_nonneg_eq_0_iff) auto
  also have "\<dots> \<longleftrightarrow> (\<forall>x \<in> set v. x = 0)" by auto
  finally show ?thesis .
qed

lemma dotProduct_zero_left:
  "\<forall>x \<in> set a. x = 0 \<Longrightarrow> dotProduct a b = None \<or> dotProduct a b = Some 0"
  by (induction a b rule: dotProduct.induct) auto

lemma dotProduct_zero_right:
  "\<forall>x \<in> set b. x = 0 \<Longrightarrow> dotProduct a b = None \<or> dotProduct a b = Some 0"
  by (induction a b rule: dotProduct.induct) auto

lemma cosineSimilarity_zero_magnitude:
  assumes "magnitude vecA = 0 \<or> magnitude vecB = 0"
  shows "cosineSimilarity vecA vecB = NaN"
proof -
  from assms have d: "dotProduct vecA vecB = None \<or> dotProduct vecA vecB = Some 0"
    using dotProduct_zero_left dotProduct_zero_right by (auto simp: magnitude_zero_iff)
  from assms have "magnitude vecA * magnitude vecB = 0" by auto
  with d show ?thesis by (auto simp: cosineSimilarity_def Let_def divide_def)
qed

lemma songsWithSimilarity_nth:
  "songsWithSimilarity songs emb embs = Inr ranked \<Longrightarrow> i < length songs \<Longrightarrow>
   length ranked = length songs \<and> i < length embs \<and>
   similarity_score (ranked ! i) = cosineSimilarity emb (embs ! i)"
proof (induction songs emb embs arbitrary: ranked i rule: songsWithSimilarity.induct)
  case (1 emb embs)
  then show ?case by simp
next
  case (2 s ss emb)
  then show ?case by simp
next
  case (3 s ss emb v vs)
  from "3.prems"(1) obtain rest where
    r: "songsWithSimilarity ss emb vs = Inr rest"
    and k: "ranked = song.extend s (rankedSong.fields (cosineSimilarity emb v)) # rest"
    by (auto split: sum.splits)
  show ?case
  proof (cases i)
    case 0
    with k r "3.IH" [OF r] "3.prems"(2) show ?thesis
      by (cases ss) (auto simp: song.defs rankedSong.defs)
  next
    case (Suc j)
    with "3.prems"(2) have "j < length ss" by simp
    from "3.IH" [OF r this] k Suc show ?thesis by simp
  qed
qed

text \<open>
  Claim C10. \<open>cosineSimilarity\<close> divides by the product of the two magnitudes without a
  zero guard: whenever one of the two vectors has magnitude zero (in particular when it
  is all zero) the result is NaN, not a number in [-1, 1]; and the array that the
  semantic re-rank sorts carries that NaN as the similarity score of the song concerned.
\<close>

theorem cosineSimilarity_unguarded:
  "(magnitude vecA = 0 \<or> magnitude vecB = 0 \<longrightarrow> cosineSimilarity vecA vecB = NaN) \<and>
   ((\<forall>x \<in> set vecA. x = 0) \<or> (\<forall>x \<in> set vecB. x = 0) \<longrightarrow>
      cosineSimilarity vecA vecB = NaN) \<and>
   (songsWithSimilarity songs emb embs = Inr ranked \<and> i < length songs \<and>
    (magnitude emb = 0 \<or> magnitude (embs ! i) = 0) \<longrightarrow>
      i < length ranked \<and> similarity_score (ranked ! i) = NaN)"
proof (intro conjI impI)
  assume "magnitude vecA = 0 \<or> magnitude vecB = 0"
  then show "cosineSimilarity vecA vecB = NaN" by (rule cosineSimilarity_zero_magnitude)
next
  assume "(\<forall>x \<in> set vecA. x = 0) \<or> (\<forall>x \<in> set vecB. x = 0)"
  then have "magnitude vecA = 0 \<or> magnitude vecB = 0" by (simp add: magnitude_zero_iff)
  then show "cosineSimilarity vecA vecB = NaN" by (rule cosineSimilarity_zero_magnitude)
next
  assume h: "songsWithSimilarity songs emb embs = Inr ranked \<and> i < length songs \<and>
    (magnitude emb = 0 \<or> magnitude (embs ! i) = 0)"
  then have n: "length ranked = length songs \<and> i < length embs \<and>
     similarity_score (ranked ! i) = cosineSimilarity emb (embs ! i)"
    by (intro songsWithSimilarity_nth) simp_all
  with h show "i < length ranked" by simp
  from h n show "similarity_score (ranked ! i) = NaN"
    by (simp add: cosineSimilarity_zero_magnitude)
qed

theorem cosineSimilarity_unguarded_witness:
  "cosineSimilarity [0, 0] [3, 4] = NaN \<and>
   cosineSimilarity [1, 0] [1, 0] = Finite 1 \<and>
   (\<exists>ranked. songsWithSimilarity [heyJude, letItBe] [1, 0] [[0, 0], [1, 0]] = Inr ranked \<and>
      similarity_score (ranked ! 0) = NaN \<and> similarity_score (ranked ! 1) = Finite 1)"
proof -
  have z: "\<forall>x \<in> set [0, 0 :: real]. x = 0" by simp
  have m: "magnitude [0, 0] = 0" by (simp add: magnitude_def)
  have one: "cosineSimilarity [1, 0] [1, 0] = Finite 1"
    by (simp add: cosineSimilarity_def magnitude_def divide_def)
  define ranked where "ranked =
    [song.extend heyJude (rankedSong.fields (cosineSimilarity [1, 0] [0, 0])),
     song.extend letItBe (rankedSong.fields (cosineSimilarity [1, 0] [1, 0]))]"
  have r: "songsWithSimilarity [heyJude, letItBe] [1, 0] [[0, 0], [1, 0]] = Inr ranked"
    by (simp add: ranked_def)
  have s1: "similarity_score (ranked ! 1) = Finite 1"
    by (simp add: ranked_def one song.defs rankedSong.defs)
  from cosineSimilarity_unguarded [of "[0, 0]" "[3, 4]"] z
  have c: "cosineSimilarity [0, 0] [3, 4] = NaN" by blast
  from cosineSimilarity_unguarded
    [of "[0, 0]" "[3, 4]" "[heyJude, letItBe]" "[1, 0]" "[[0, 0], [1, 0]]" ranked 0] r m
  have s0: "similarity_score (ranked ! 0) = NaN" by simp
  from c one r s0 s1 show ?thesis by blast
qed

end
